theory Spec2Isabelle
  imports Main
begin

section \<open>Values, exceptions and observable events\<close>

text \<open>
  The service (\<^verbatim>\<open>app.py\<close>) is a Flask application over one table \<^verbatim>\<open>news\<close>.
  Request payloads and response bodies are JSON values. A parsed object is the Python
  dict \<open>map_of kvs\<close> of \<open>JObj kvs\<close>. Numbers are integers here: no branch of the
  handlers looks at a number. Strings are lists of 8-bit characters, read as code
  points below 256.
\<close>

datatype json =
    JNull
  | JBool bool
  | JNum int
  | JStr string
  | JArr "json list"
  | JObj "(string \<times> json) list"

text \<open>
  Exceptions other than werkzeug's \<^verbatim>\<open>HTTPException\<close>: the class and \<^verbatim>\<open>str(e)\<close>.
  \<open>DatabaseError\<close> stands for any \<^verbatim>\<open>psycopg2.Error\<close> raised by a cursor or a connection,
  \<open>ConnectError\<close> for an exception of \<^verbatim>\<open>psycopg2.connect\<close> that is not an
  \<^verbatim>\<open>OperationalError\<close>.
\<close>

datatype pyexc =
    TypeError string
  | KeyError string
  | AttributeError string
  | DatabaseError string
  | ConnectError string

fun str_of :: "pyexc \<Rightarrow> string" where
  "str_of (TypeError m) = m"
| "str_of (KeyError m) = m"
| "str_of (AttributeError m) = m"
| "str_of (DatabaseError m) = m"
| "str_of (ConnectError m) = m"

text \<open>What a handler can raise: \<^verbatim>\<open>abort(code, description=...)\<close>, or anything else.\<close>

datatype exn =
    HTTPException nat string
  | Uncaught pyexc

text \<open>The outcome of one call of \<^verbatim>\<open>psycopg2.connect\<close>.\<close>

datatype connect_result =
    Connected
  | OperationalError string
  | ConnectRaises string

datatype connection = Connection

text \<open>The SQL statements of the handlers, each with the parameters bound to it.\<close>

datatype statement =
    SelectAllNews
  | InsertNews json json
  | SelectNewsById int
  | UpdateNews json json int
  | DeleteNewsById int

text \<open>Log records: the format string of the source with its arguments.\<close>

datatype logrec =
    EnvNotFullySet
  | DbNotReady nat nat string
  | CouldNotConnect nat
  | ErrorListing string
  | ErrorCreating string
  | ErrorUpdating string
  | ErrorDeleting string

text \<open>
  What a request does to the outside world, in order: calls of \<^verbatim>\<open>psycopg2.connect\<close>
  (attempt number and outcome), \<^verbatim>\<open>time.sleep\<close>, the logger, and the calls on the
  connection.
\<close>

datatype event =
    Connect nat connect_result
  | Sleep nat
  | LogWarning logrec
  | LogError logrec
  | Execute statement
  | Commit
  | Rollback
  | Close

text \<open>
  The surroundings of one request: the process environment, what each connection attempt
  will meet, and which database calls raise (\<open>Some m\<close>: the call raises with message \<open>m\<close>).
\<close>

record config =
  environ :: "string \<Rightarrow> string option"
  connect_plan :: "nat \<Rightarrow> connect_result"
  stmt_fault :: "statement \<Rightarrow> string option"
  commit_fault :: "string option"
  rollback_fault :: "string option"

section \<open>Connection provider\<close>

definition retries :: nat where
  "retries = 5"

definition delay_seconds :: nat where
  "delay_seconds = 5"

text \<open>Python truth of \<^verbatim>\<open>os.environ.get(k)\<close>: \<^verbatim>\<open>None\<close> and the empty string are false.\<close>

fun truthy :: "string option \<Rightarrow> bool" where
  "truthy None = False"
| "truthy (Some v) = (v \<noteq> [])"

text \<open>The \<^verbatim>\<open>for attempt in range(1, retries + 1)\<close> loop, over the attempt numbers left.\<close>

fun connect_loop :: "config \<Rightarrow> nat list \<Rightarrow> (pyexc + connection option) \<times> event list" where
  "connect_loop cfg [] = (Inr None, [LogError (CouldNotConnect retries)])"
| "connect_loop cfg (attempt # rest) =
     (case connect_plan cfg attempt of
        Connected \<Rightarrow> (Inr (Some Connection), [Connect attempt Connected])
      | OperationalError e \<Rightarrow>
          (let (r, evs) = connect_loop cfg rest
           in (r, [Connect attempt (OperationalError e),
                   LogWarning (DbNotReady attempt retries e)]
                  @ (if attempt < retries then [Sleep delay_seconds] else [])
                  @ evs))
      | ConnectRaises e \<Rightarrow> (Inl (ConnectError e), [Connect attempt (ConnectRaises e)]))"

definition get_db_connection :: "config \<Rightarrow> (pyexc + connection option) \<times> event list" where
  "get_db_connection cfg =
     (let db_host = environ cfg ''DB_HOST'';
          db_name = environ cfg ''DB_NAME'';
          db_user = environ cfg ''DB_USER'';
          db_pass = environ cfg ''DB_PASS''
      in if \<not> list_all truthy [db_host, db_name, db_user, db_pass]
         then (Inr None, [LogError EnvNotFullySet])
         else connect_loop cfg [1 ..< retries + 1])"

text \<open>Observations on an event list: the attempts and the sleeps, in order.\<close>

datatype tick = Attempt | Wait nat

fun timeline :: "event list \<Rightarrow> tick list" where
  "timeline [] = []"
| "timeline (Connect n r # evs) = Attempt # timeline evs"
| "timeline (Sleep s # evs) = Wait s # timeline evs"
| "timeline (e # evs) = timeline evs"

text \<open>\<open>k\<close> attempts with a wait of \<open>d\<close> seconds between each two of them.\<close>

fun spaced :: "nat \<Rightarrow> nat \<Rightarrow> tick list" where
  "spaced d 0 = []"
| "spaced d (Suc 0) = [Attempt]"
| "spaced d (Suc (Suc k)) = Attempt # Wait d # spaced d (Suc k)"

fun is_operational :: "connect_result \<Rightarrow> bool" where
  "is_operational (OperationalError e) = True"
| "is_operational r = False"

definition env_absent :: "config \<Rightarrow> bool" where
  "env_absent cfg =
     (environ cfg ''DB_HOST'' = None \<or> environ cfg ''DB_NAME'' = None
      \<or> environ cfg ''DB_USER'' = None \<or> environ cfg ''DB_PASS'' = None)"

definition env_ready :: "config \<Rightarrow> bool" where
  "env_ready cfg =
     (truthy (environ cfg ''DB_HOST'') \<and> truthy (environ cfg ''DB_NAME'')
      \<and> truthy (environ cfg ''DB_USER'') \<and> truthy (environ cfg ''DB_PASS''))"

section \<open>Python operations on the request payload\<close>

text \<open>
  \<^verbatim>\<open>str.strip()\<close> removes leading and trailing whitespace. Below code point 256 Python's
  whitespace is: tab to carriage return, the separators 28 to 31, space, 133 and 160.
\<close>

definition is_space :: "char \<Rightarrow> bool" where
  "is_space c = (of_char c \<in> set [9, 10, 11, 12, 13, 28, 29, 30, 31, 32, 133, 160 :: nat])"

definition strip :: "string \<Rightarrow> string" where
  "strip s = rev (dropWhile is_space (rev (dropWhile is_space s)))"

definition quoted :: "string \<Rightarrow> string" where
  "quoted s = CHR 0x27 # s @ [CHR 0x27]"

fun py_type_name :: "json \<Rightarrow> string" where
  "py_type_name JNull = ''NoneType''"
| "py_type_name (JBool b) = ''bool''"
| "py_type_name (JNum n) = ''int''"
| "py_type_name (JStr s) = ''str''"
| "py_type_name (JArr xs) = ''list''"
| "py_type_name (JObj kvs) = ''dict''"

fun is_substring :: "string \<Rightarrow> string \<Rightarrow> bool" where
  "is_substring p [] = (p = [])"
| "is_substring p (c # cs) = (take (length p) (c # cs) = p \<or> is_substring p cs)"

text \<open>
  \<^verbatim>\<open>key in payload\<close>: key membership for a dict, element membership for a list, substring
  test for a string, and a \<^verbatim>\<open>TypeError\<close> for \<^verbatim>\<open>None\<close>, booleans and numbers.
\<close>

fun py_in :: "string \<Rightarrow> json \<Rightarrow> pyexc + bool" where
  "py_in key (JObj kvs) = Inr (map_of kvs key \<noteq> None)"
| "py_in key (JArr xs) = Inr (JStr key \<in> set xs)"
| "py_in key (JStr s) = Inr (is_substring key s)"
| "py_in key v = Inl (TypeError (''argument of type '' @ quoted (py_type_name v) @ '' is not iterable''))"

text \<open>\<^verbatim>\<open>payload[key]\<close> with a string key: only a dict can be indexed so.\<close>

fun py_subscript :: "json \<Rightarrow> string \<Rightarrow> pyexc + json" where
  "py_subscript (JObj kvs) key =
     (case map_of kvs key of None \<Rightarrow> Inl (KeyError key) | Some v \<Rightarrow> Inr v)"
| "py_subscript (JArr xs) key = Inl (TypeError ''list indices must be integers or slices, not str'')"
| "py_subscript (JStr s) key = Inl (TypeError ''string indices must be integers'')"
| "py_subscript v key = Inl (TypeError (quoted (py_type_name v) @ '' object is not subscriptable''))"

text \<open>\<^verbatim>\<open>payload.get(key, default)\<close>: only a dict has the method.\<close>

fun py_get :: "json \<Rightarrow> string \<Rightarrow> json \<Rightarrow> pyexc + json" where
  "py_get (JObj kvs) key dflt = Inr (case map_of kvs key of None \<Rightarrow> dflt | Some v \<Rightarrow> v)"
| "py_get v key dflt = Inl (AttributeError (quoted (py_type_name v) @ '' object has no attribute '' @ quoted ''get''))"

text \<open>
  The condition of line 112, with Python's short-circuit \<^verbatim>\<open>or\<close>:
  \<^verbatim>\<open>"title" not in payload or not isinstance(payload["title"], str) or not payload["title"].strip()\<close>.
\<close>

definition title_invalid :: "json \<Rightarrow> pyexc + bool" where
  "title_invalid payload =
     (case py_in ''title'' payload of
        Inl e \<Rightarrow> Inl e
      | Inr False \<Rightarrow> Inr True
      | Inr True \<Rightarrow>
          (case py_subscript payload ''title'' of
             Inl e \<Rightarrow> Inl e
           | Inr (JStr s) \<Rightarrow> Inr (strip s = [])
           | Inr v \<Rightarrow> Inr True))"

text \<open>
  Lines 112 to 116 of \<^verbatim>\<open>create_news\<close>: the check of the title, then
  \<^verbatim>\<open>title = payload["title"].strip()\<close> and \<^verbatim>\<open>content = payload.get("content", "")\<close>.
\<close>

definition create_news_fields :: "json \<Rightarrow> exn + (json \<times> json)" where
  "create_news_fields payload =
     (case title_invalid payload of
        Inl e \<Rightarrow> Inl (Uncaught e)
      | Inr True \<Rightarrow> Inl (HTTPException 400 ''Missing or invalid 'title' field'')
      | Inr False \<Rightarrow>
          (case py_subscript payload ''title'' of
             Inl e \<Rightarrow> Inl (Uncaught e)
           | Inr (JStr s) \<Rightarrow>
               (case py_get payload ''content'' (JStr []) of
                  Inl e \<Rightarrow> Inl (Uncaught e)
                | Inr content \<Rightarrow> Inr (JStr (strip s), content))
           | Inr v \<Rightarrow>
               Inl (Uncaught (AttributeError (quoted (py_type_name v) @ '' object has no attribute '' @ quoted ''strip'')))))"

section \<open>The store\<close>

text \<open>
  Modelled from the spec: the table \<^verbatim>\<open>news(id, title, content)\<close> and the transaction
  behaviour of the driver, which \<^verbatim>\<open>app.py\<close> uses and does not define. A row holds the values
  bound to the statement that wrote it. The table assigns ids from a counter that a
  rollback does not rewind. A connection works on its own view of the rows; \<^verbatim>\<open>commit\<close>
  publishes the view, \<^verbatim>\<open>rollback\<close> and \<^verbatim>\<open>close\<close> drop what was not committed. Whatever
  the driver or the table may refuse is a fault of the configuration.
\<close>

type_synonym row = "int \<times> json \<times> json"

record database =
  news :: "row list"
  next_id :: int

record session =
  committed :: "row list"
  working :: "row list"
  serial :: int

definition open_session :: "database \<Rightarrow> session" where
  "open_session db = \<lparr>committed = news db, working = news db, serial = next_id db\<rparr>"

fun run_statement :: "statement \<Rightarrow> session \<Rightarrow> row list \<times> session" where
  "run_statement SelectAllNews s = (sort_key fst (working s), s)"
| "run_statement (InsertNews t c) s =
     ([(serial s, t, c)],
      s\<lparr>working := working s @ [(serial s, t, c)], serial := serial s + 1\<rparr>)"
| "run_statement (SelectNewsById i) s = (filter (\<lambda>r. fst r = i) (working s), s)"
| "run_statement (UpdateNews t c i) s =
     ([], s\<lparr>working := map (\<lambda>r. if fst r = i then (i, t, c) else r) (working s)\<rparr>)"
| "run_statement (DeleteNewsById i) s =
     (filter (\<lambda>r. fst r = i) (working s),
      s\<lparr>working := filter (\<lambda>r. fst r \<noteq> i) (working s)\<rparr>)"

text \<open>\<^verbatim>\<open>cur.execute(sql, params)\<close>: the call is made, then it raises or it runs.\<close>

definition execute :: "config \<Rightarrow> statement \<Rightarrow> session \<Rightarrow> (pyexc + row list) \<times> session \<times> event list" where
  "execute cfg st s =
     (case stmt_fault cfg st of
        Some m \<Rightarrow> (Inl (DatabaseError m), s, [Execute st])
      | None \<Rightarrow> (let (rows, s') = run_statement st s in (Inr rows, s', [Execute st])))"

definition fetchone :: "row list \<Rightarrow> row option" where
  "fetchone rows = (case rows of [] \<Rightarrow> None | r # rest \<Rightarrow> Some r)"

definition commit :: "config \<Rightarrow> session \<Rightarrow> (pyexc + unit) \<times> session \<times> event list" where
  "commit cfg s =
     (case commit_fault cfg of
        Some m \<Rightarrow> (Inl (DatabaseError m), s, [Commit])
      | None \<Rightarrow> (Inr (), s\<lparr>committed := working s\<rparr>, [Commit]))"

text \<open>
  The rollback of the handlers,
  \<^verbatim>\<open>try: conn.rollback() except Exception: pass\<close>: a failure of the rollback is swallowed.
\<close>

definition try_rollback :: "config \<Rightarrow> session \<Rightarrow> session \<times> event list" where
  "try_rollback cfg s =
     (case rollback_fault cfg of
        Some m \<Rightarrow> (s, [Rollback])
      | None \<Rightarrow> (s\<lparr>working := committed s\<rparr>, [Rollback]))"

text \<open>\<^verbatim>\<open>conn.close()\<close> is taken never to raise; what remains is the committed table.\<close>

definition close :: "session \<Rightarrow> database" where
  "close s = \<lparr>news = committed s, next_id = serial s\<rparr>"

section \<open>Request handlers\<close>

text \<open>
  The body of a request as the handlers see it: \<^verbatim>\<open>request.is_json\<close> is false; or it is true
  and \<^verbatim>\<open>request.get_json()\<close> cannot parse the body, which raises werkzeug's
  \<^verbatim>\<open>BadRequest\<close>; or it returns the parsed value.
\<close>

datatype request_body = NotJson | Malformed | Parsed json

definition bad_request_description :: string where
  "bad_request_description =
     ''The browser (or proxy) sent a request that this server could not understand.''"

text \<open>A handler returns \<^verbatim>\<open>(jsonify(body), code)\<close> or raises, and leaves a database and events.\<close>

type_synonym reply = "exn + (json \<times> nat)"

definition connection_failed :: "json \<times> nat" where
  "connection_failed = (JObj [(''error'', JStr ''Database connection failed'')], 500)"

definition error_reply :: "pyexc \<Rightarrow> json \<times> nat" where
  "error_reply e = (JObj [(''error'', JStr (str_of e))], 500)"

definition item_of :: "int \<Rightarrow> json \<Rightarrow> json \<Rightarrow> json" where
  "item_of i t c = JObj [(''id'', JNum i), (''title'', t), (''content'', c)]"

definition db_health_check :: "config \<Rightarrow> database \<Rightarrow> reply \<times> database \<times> event list" where
  "db_health_check cfg db =
     (case get_db_connection cfg of
        (Inl e, evs) \<Rightarrow> (Inl (Uncaught e), db, evs)
      | (Inr None, evs) \<Rightarrow>
          (Inr (JObj [(''status'', JStr ''error''),
                      (''message'', JStr ''Database connection failed'')], 500), db, evs)
      | (Inr (Some conn), evs) \<Rightarrow>
          (Inr (JObj [(''status'', JStr ''ok''),
                      (''message'', JStr ''Database connection successful'')], 200),
           close (open_session db), evs @ [Close]))"

definition index :: "json \<times> nat" where
  "index =
     (JObj [(''message'', JStr ''Welcome to the News API (with Postgres)!''),
            (''endpoints'',
             JObj [(''list_all_news'', JStr ''GET /news''),
                   (''create_news'', JStr ''POST /news''),
                   (''update_news'', JStr ''PUT /news/<id>''),
                   (''delete_news'', JStr ''DELETE /news/<id>''),
                   (''db_health'', JStr ''GET /db-health'')])], 200)"

definition list_news :: "config \<Rightarrow> database \<Rightarrow> reply \<times> database \<times> event list" where
  "list_news cfg db =
     (case get_db_connection cfg of
        (Inl e, evs) \<Rightarrow> (Inl (Uncaught e), db, evs)
      | (Inr None, evs) \<Rightarrow> (Inr connection_failed, db, evs)
      | (Inr (Some conn), evs) \<Rightarrow>
          (case execute cfg SelectAllNews (open_session db) of
             (Inl e, s, evs1) \<Rightarrow>
               (Inr (error_reply e), close s,
                evs @ evs1 @ [LogError (ErrorListing (str_of e)), Close])
           | (Inr rows, s, evs1) \<Rightarrow>
               (let items = map (\<lambda>(i, t, c). item_of i t c) rows
                in (Inr (JObj [(''count'', JNum (int (length items))),
                               (''items'', JArr items)], 200),
                    close s, evs @ evs1 @ [Close]))))"

text \<open>The \<^verbatim>\<open>try\<close> block of \<^verbatim>\<open>create_news\<close> (lines 124 to 132).\<close>

definition create_news_try ::
  "config \<Rightarrow> json \<Rightarrow> json \<Rightarrow> session \<Rightarrow> (pyexc + json) \<times> session \<times> event list" where
  "create_news_try cfg title content s =
     (case execute cfg (InsertNews title content) s of
        (Inl e, s1, evs1) \<Rightarrow> (Inl e, s1, evs1)
      | (Inr rows, s1, evs1) \<Rightarrow>
          (case fetchone rows of
             None \<Rightarrow> (Inl (TypeError (quoted ''NoneType'' @ '' object is not subscriptable'')), s1, evs1)
           | Some (new_id, t, c) \<Rightarrow>
               (case commit cfg s1 of
                  (Inl e, s2, evs2) \<Rightarrow> (Inl e, s2, evs1 @ evs2)
                | (Inr u, s2, evs2) \<Rightarrow> (Inr (item_of new_id title content), s2, evs1 @ evs2))))"

definition create_news :: "config \<Rightarrow> request_body \<Rightarrow> database \<Rightarrow> reply \<times> database \<times> event list" where
  "create_news cfg body db =
     (case body of
        NotJson \<Rightarrow> (Inl (HTTPException 400 ''Request must be JSON''), db, [])
      | Malformed \<Rightarrow> (Inl (HTTPException 400 bad_request_description), db, [])
      | Parsed payload \<Rightarrow>
          (case create_news_fields payload of
             Inl x \<Rightarrow> (Inl x, db, [])
           | Inr (title, content) \<Rightarrow>
               (case get_db_connection cfg of
                  (Inl e, evs) \<Rightarrow> (Inl (Uncaught e), db, evs)
                | (Inr None, evs) \<Rightarrow> (Inr connection_failed, db, evs)
                | (Inr (Some conn), evs) \<Rightarrow>
                    (case create_news_try cfg title content (open_session db) of
                       (Inl e, s, evs1) \<Rightarrow>
                         (let (s', evs2) = try_rollback cfg s
                          in (Inr (error_reply e), close s',
                              evs @ evs1 @ [LogError (ErrorCreating (str_of e))] @ evs2 @ [Close]))
                     | (Inr new_item, s, evs1) \<Rightarrow>
                         (Inr (new_item, 201), close s, evs @ evs1 @ [Close])))))"

text \<open>
  The \<^verbatim>\<open>try\<close> block of \<^verbatim>\<open>update_news\<close> (lines 157 to 173). A row that was fetched is a
  non-empty tuple, so \<^verbatim>\<open>not item\<close> holds only when no row was found.
\<close>

definition update_news_try ::
  "config \<Rightarrow> int \<Rightarrow> json \<Rightarrow> session \<Rightarrow> (exn + json) \<times> session \<times> event list" where
  "update_news_try cfg item_id payload s =
     (case execute cfg (SelectNewsById item_id) s of
        (Inl e, s1, evs1) \<Rightarrow> (Inl (Uncaught e), s1, evs1)
      | (Inr rows, s1, evs1) \<Rightarrow>
          (case fetchone rows of
             None \<Rightarrow> (Inl (HTTPException 404 ''Item not found''), s1, evs1)
           | Some (i, current_title, current_content) \<Rightarrow>
               (case py_get payload ''title'' current_title of
                  Inl e \<Rightarrow> (Inl (Uncaught e), s1, evs1)
                | Inr title \<Rightarrow>
                    (case py_get payload ''content'' current_content of
                       Inl e \<Rightarrow> (Inl (Uncaught e), s1, evs1)
                     | Inr content \<Rightarrow>
                         (case execute cfg (UpdateNews title content item_id) s1 of
                            (Inl e, s2, evs2) \<Rightarrow> (Inl (Uncaught e), s2, evs1 @ evs2)
                          | (Inr none, s2, evs2) \<Rightarrow>
                              (case commit cfg s2 of
                                 (Inl e, s3, evs3) \<Rightarrow> (Inl (Uncaught e), s3, evs1 @ evs2 @ evs3)
                               | (Inr u, s3, evs3) \<Rightarrow>
                                   (Inr (item_of item_id title content), s3,
                                    evs1 @ evs2 @ evs3)))))))"

text \<open>
  The handler with its \<^verbatim>\<open>except HTTPException: raise\<close>, its \<^verbatim>\<open>except Exception\<close> and its
  \<^verbatim>\<open>finally: conn.close()\<close>.
\<close>

definition update_news ::
  "config \<Rightarrow> int \<Rightarrow> request_body \<Rightarrow> database \<Rightarrow> reply \<times> database \<times> event list" where
  "update_news cfg item_id body db =
     (case body of
        NotJson \<Rightarrow> (Inl (HTTPException 400 ''Request must be JSON''), db, [])
      | Malformed \<Rightarrow> (Inl (HTTPException 400 bad_request_description), db, [])
      | Parsed payload \<Rightarrow>
          (case get_db_connection cfg of
             (Inl e, evs) \<Rightarrow> (Inl (Uncaught e), db, evs)
           | (Inr None, evs) \<Rightarrow> (Inr connection_failed, db, evs)
           | (Inr (Some conn), evs) \<Rightarrow>
               (case update_news_try cfg item_id payload (open_session db) of
                  (Inl (HTTPException code description), s, evs1) \<Rightarrow>
                    (Inl (HTTPException code description), close s, evs @ evs1 @ [Close])
                | (Inl (Uncaught e), s, evs1) \<Rightarrow>
                    (let (s', evs2) = try_rollback cfg s
                     in (Inr (error_reply e), close s',
                         evs @ evs1 @ [LogError (ErrorUpdating (str_of e))] @ evs2 @ [Close]))
                | (Inr updated_item, s, evs1) \<Rightarrow>
                    (Inr (updated_item, 200), close s, evs @ evs1 @ [Close]))))"

text \<open>The \<^verbatim>\<open>try\<close> block of \<^verbatim>\<open>delete_news\<close> (lines 197 to 202).\<close>

definition delete_news_try ::
  "config \<Rightarrow> int \<Rightarrow> session \<Rightarrow> (exn + unit) \<times> session \<times> event list" where
  "delete_news_try cfg item_id s =
     (case execute cfg (DeleteNewsById item_id) s of
        (Inl e, s1, evs1) \<Rightarrow> (Inl (Uncaught e), s1, evs1)
      | (Inr rows, s1, evs1) \<Rightarrow>
          (case fetchone rows of
             None \<Rightarrow> (Inl (HTTPException 404 ''Item not found''), s1, evs1)
           | Some deleted \<Rightarrow>
               (case commit cfg s1 of
                  (Inl e, s2, evs2) \<Rightarrow> (Inl (Uncaught e), s2, evs1 @ evs2)
                | (Inr u, s2, evs2) \<Rightarrow> (Inr (), s2, evs1 @ evs2))))"

definition delete_news :: "config \<Rightarrow> int \<Rightarrow> database \<Rightarrow> reply \<times> database \<times> event list" where
  "delete_news cfg item_id db =
     (case get_db_connection cfg of
        (Inl e, evs) \<Rightarrow> (Inl (Uncaught e), db, evs)
      | (Inr None, evs) \<Rightarrow> (Inr connection_failed, db, evs)
      | (Inr (Some conn), evs) \<Rightarrow>
          (case delete_news_try cfg item_id (open_session db) of
             (Inl (HTTPException code description), s, evs1) \<Rightarrow>
               (Inl (HTTPException code description), close s, evs @ evs1 @ [Close])
           | (Inl (Uncaught e), s, evs1) \<Rightarrow>
               (let (s', evs2) = try_rollback cfg s
                in (Inr (error_reply e), close s',
                    evs @ evs1 @ [LogError (ErrorDeleting (str_of e))] @ evs2 @ [Close]))
           | (Inr u, s, evs1) \<Rightarrow>
               (Inr (JObj [(''status'', JStr ''deleted''), (''id'', JNum item_id)], 200),
                close s, evs @ evs1 @ [Close])))"

section \<open>Error translator and dispatch\<close>

record response =
  status_code :: nat
  content_type :: string
  data :: json

text \<open>
  \<^verbatim>\<open>handle_http_exception(e)\<close>, registered for \<^verbatim>\<open>HTTPException\<close>, from \<^verbatim>\<open>e.code\<close> and
  \<^verbatim>\<open>e.description\<close>.
\<close>

definition handle_http_exception :: "nat \<Rightarrow> string \<Rightarrow> response" where
  "handle_http_exception code description =
     \<lparr>status_code = code, content_type = ''application/json'',
      data = JObj [(''error'', JStr description)]\<rparr>"

definition internal_server_error_description :: string where
  "internal_server_error_description =
     ''The server encountered an internal error and was unable to complete your request. Either the server is overloaded or there is an error in the application.''"

text \<open>
  What Flask makes of a handler's outcome: a returned pair becomes the response; an
  \<^verbatim>\<open>HTTPException\<close> goes to the registered error handler; any other exception is wrapped
  in an \<^verbatim>\<open>InternalServerError\<close> (code 500), itself an \<^verbatim>\<open>HTTPException\<close>, and goes to the same
  error handler.
\<close>

definition respond :: "reply \<Rightarrow> response" where
  "respond r =
     (case r of
        Inr (body, code) \<Rightarrow> \<lparr>status_code = code, content_type = ''application/json'', data = body\<rparr>
      | Inl (HTTPException code description) \<Rightarrow> handle_http_exception code description
      | Inl (Uncaught e) \<Rightarrow> handle_http_exception 500 internal_server_error_description)"

text \<open>
  The routes. Flask's \<^verbatim>\<open><int:item_id>\<close> only matches ids that are not negative; the
  handlers do not depend on it.
\<close>

datatype route =
    GetIndex
  | GetDbHealth
  | GetNews
  | PostNews
  | PutNews int
  | DeleteNews int

definition handle :: "config \<Rightarrow> route \<Rightarrow> request_body \<Rightarrow> database \<Rightarrow> reply \<times> database \<times> event list" where
  "handle cfg rt body db =
     (case rt of
        GetIndex \<Rightarrow> (Inr index, db, [])
      | GetDbHealth \<Rightarrow> db_health_check cfg db
      | GetNews \<Rightarrow> list_news cfg db
      | PostNews \<Rightarrow> create_news cfg body db
      | PutNews item_id \<Rightarrow> update_news cfg item_id body db
      | DeleteNews item_id \<Rightarrow> delete_news cfg item_id db)"

definition serve :: "config \<Rightarrow> route \<Rightarrow> request_body \<Rightarrow> database \<Rightarrow> response \<times> database \<times> event list" where
  "serve cfg rt body db = (let (r, db', evs) = handle cfg rt body db in (respond r, db', evs))"

section \<open>Observations\<close>

text \<open>Connections opened and closed in an event list.\<close>

fun is_opened :: "event \<Rightarrow> bool" where
  "is_opened (Connect n Connected) = True"
| "is_opened e = False"

definition opened :: "event list \<Rightarrow> nat" where
  "opened evs = length (filter is_opened evs)"

definition closed :: "event list \<Rightarrow> nat" where
  "closed evs = length (filter (\<lambda>e. e = Close) evs)"

text \<open>
  The two records that \<open>get_db_connection\<close> logs exactly when it gives up: the
  environment is not fully set, or the attempts are exhausted.
\<close>

definition acquire_failed :: "event list \<Rightarrow> bool" where
  "acquire_failed evs =
     (LogError EnvNotFullySet \<in> set evs \<or> LogError (CouldNotConnect retries) \<in> set evs)"

fun data_path :: "route \<Rightarrow> bool" where
  "data_path GetNews = True"
| "data_path PostNews = True"
| "data_path (PutNews item_id) = True"
| "data_path (DeleteNews item_id) = True"
| "data_path rt = False"

text \<open>The invariant of the data model: every row has a string title, not empty after trimming.\<close>

fun titled :: "row \<Rightarrow> bool" where
  "titled (i, JStr s, c) = (strip s \<noteq> [])"
| "titled (i, t, c) = False"

definition titles_nonempty :: "database \<Rightarrow> bool" where
  "titles_nonempty db = list_all titled (news db)"

text \<open>The titles that the check of \<open>create_news\<close> turns down, as \<open>map_of kvs ''title''\<close>.\<close>

fun title_rejected :: "json option \<Rightarrow> bool" where
  "title_rejected None = True"
| "title_rejected (Some (JStr s)) = (strip s = [])"
| "title_rejected (Some v) = True"

section \<open>Sample surroundings\<close>

text \<open>
  Configurations used to run the model: a database that is up, one that accepts the third
  connection attempt, one that refuses every attempt, an empty environment, an
  environment whose \<^verbatim>\<open>DB_PASS\<close> is set to the empty string, a database on which
  every statement raises; and a table of one row.
\<close>

definition env_full :: "string \<Rightarrow> string option" where
  "env_full =
     [''DB_HOST'' \<mapsto> ''db'', ''DB_NAME'' \<mapsto> ''newsdb'', ''DB_USER'' \<mapsto> ''app'',
      ''DB_PASS'' \<mapsto> ''secret'']"

definition cfg_up :: config where
  "cfg_up =
     \<lparr>environ = env_full, connect_plan = (\<lambda>n. Connected), stmt_fault = (\<lambda>st. None),
      commit_fault = None, rollback_fault = None\<rparr>"

definition cfg_late :: config where
  "cfg_late =
     cfg_up\<lparr>connect_plan := (\<lambda>n. if n < 3 then OperationalError ''connection refused''
                                 else Connected)\<rparr>"

definition cfg_down :: config where
  "cfg_down = cfg_up\<lparr>connect_plan := (\<lambda>n. OperationalError ''connection refused'')\<rparr>"

definition cfg_no_env :: config where
  "cfg_no_env = cfg_up\<lparr>environ := Map.empty\<rparr>"

definition cfg_blank_pass :: config where
  "cfg_blank_pass = cfg_up\<lparr>environ := env_full(''DB_PASS'' \<mapsto> [])\<rparr>"

definition db_one :: database where
  "db_one = \<lparr>news = [(1, JStr ''Hello'', JStr ''first'')], next_id = 2\<rparr>"

definition cfg_broken :: config where
  "cfg_broken = cfg_up\<lparr>stmt_fault := (\<lambda>st. Some ''server closed the connection unexpectedly'')\<rparr>"

section \<open>Connection acquisition\<close>

lemma attempt_numbers: "[1 ..< retries + 1] = [1, 2, 3, 4, 5]"
  by (simp add: retries_def upt_rec)

lemma get_db_connection_unready:
  "\<not> env_ready cfg \<Longrightarrow> get_db_connection cfg = (Inr None, [LogError EnvNotFullySet])"
  by (auto simp add: get_db_connection_def env_ready_def Let_def)

lemma get_db_connection_ready:
  "env_ready cfg \<Longrightarrow> get_db_connection cfg = connect_loop cfg [1, 2, 3, 4, 5]"
  by (simp only: get_db_connection_def Let_def attempt_numbers)
     (simp add: env_ready_def del: connect_loop.simps)

lemma env_absent_unready: "env_absent cfg \<Longrightarrow> \<not> env_ready cfg"
  by (auto simp add: env_absent_def env_ready_def)

lemma connect_loop_timeline:
  "timeline (snd (connect_loop cfg [1, 2, 3, 4, 5])) \<in> set (map (spaced 5) [1, 2, 3, 4, 5])"
  by (cases "connect_plan cfg 1"; cases "connect_plan cfg 2"; cases "connect_plan cfg 3";
      cases "connect_plan cfg 4"; cases "connect_plan cfg 5";
      simp add: retries_def delay_seconds_def eval_nat_numeral)

lemma operational_before:
  assumes "list_all (\<lambda>j. is_operational (connect_plan cfg j)) [1 ..< k]" and "1 \<le> j" and "j < k"
  shows "\<exists>e. connect_plan cfg j = OperationalError e"
proof -
  from assms have "is_operational (connect_plan cfg j)"
    by (simp add: list_all_iff)
  then show ?thesis
    by (cases "connect_plan cfg j") auto
qed

lemma connect_loop_success:
  assumes k: "1 \<le> k" "k \<le> 5"
    and failed: "list_all (\<lambda>j. is_operational (connect_plan cfg j)) [1 ..< k]"
    and ok: "connect_plan cfg k = Connected"
  shows "fst (connect_loop cfg [1, 2, 3, 4, 5]) = Inr (Some Connection)
       \<and> timeline (snd (connect_loop cfg [1, 2, 3, 4, 5])) = spaced 5 k"
proof -
  note op = operational_before [OF failed]
  from k consider "k = 1" | "k = 2" | "k = 3" | "k = 4" | "k = 5"
    by linarith
  then show ?thesis
  proof cases
    case 1
    then show ?thesis using ok by (simp add: eval_nat_numeral)
  next
    case 2
    with op [of 1] obtain e1 where "connect_plan cfg 1 = OperationalError e1" by auto
    then show ?thesis using ok 2
      by (simp add: retries_def delay_seconds_def eval_nat_numeral)
  next
    case 3
    with op [of 1] op [of 2] obtain e1 e2 where
      "connect_plan cfg 1 = OperationalError e1" "connect_plan cfg 2 = OperationalError e2"
      by auto
    then show ?thesis using ok 3
      by (simp add: retries_def delay_seconds_def eval_nat_numeral)
  next
    case 4
    with op [of 1] op [of 2] op [of 3] obtain e1 e2 e3 where
      "connect_plan cfg 1 = OperationalError e1" "connect_plan cfg 2 = OperationalError e2"
      "connect_plan cfg 3 = OperationalError e3"
      by auto
    then show ?thesis using ok 4
      by (simp add: retries_def delay_seconds_def eval_nat_numeral)
  next
    case 5
    with op [of 1] op [of 2] op [of 3] op [of 4] obtain e1 e2 e3 e4 where
      "connect_plan cfg 1 = OperationalError e1" "connect_plan cfg 2 = OperationalError e2"
      "connect_plan cfg 3 = OperationalError e3" "connect_plan cfg 4 = OperationalError e4"
      by auto
    then show ?thesis using ok 5
      by (simp add: retries_def delay_seconds_def eval_nat_numeral)
  qed
qed

lemma connect_loop_exhausted:
  assumes failed: "list_all (\<lambda>j. is_operational (connect_plan cfg j)) [1 ..< 6]"
  shows "fst (connect_loop cfg [1, 2, 3, 4, 5]) = Inr None
       \<and> timeline (snd (connect_loop cfg [1, 2, 3, 4, 5])) = spaced 5 5"
proof -
  note op = operational_before [OF failed]
  from op [of 1] op [of 2] op [of 3] op [of 4] op [of 5] obtain e1 e2 e3 e4 e5 where
    "connect_plan cfg 1 = OperationalError e1" "connect_plan cfg 2 = OperationalError e2"
    "connect_plan cfg 3 = OperationalError e3" "connect_plan cfg 4 = OperationalError e4"
    "connect_plan cfg 5 = OperationalError e5"
    by auto
  then show ?thesis
    by (simp add: retries_def delay_seconds_def eval_nat_numeral)
qed

text \<open>
  Claim C1, as the code has it. If one of \<^verbatim>\<open>DB_HOST\<close>, \<^verbatim>\<open>DB_NAME\<close>, \<^verbatim>\<open>DB_USER\<close>,
  \<^verbatim>\<open>DB_PASS\<close> is absent or empty, \<open>get_db_connection\<close> returns \<^verbatim>\<open>None\<close> at once: no
  connection attempt, no sleep. If all four are set and not empty, it makes between one and
  five attempts with a sleep of exactly 5 seconds between each two of them and none after
  the last. It returns the connection of attempt \<open>k \<le> 5\<close> when the attempts before \<open>k\<close>
  raised \<^verbatim>\<open>OperationalError\<close>, after \<open>k\<close> attempts and \<open>k - 1\<close> sleeps. It returns \<^verbatim>\<open>None\<close>
  when all five attempts raised \<^verbatim>\<open>OperationalError\<close>, after five attempts and four sleeps.
\<close>

theorem get_db_connection_attempts:
  "(env_absent cfg \<or> \<not> env_ready cfg \<longrightarrow>
      get_db_connection cfg = (Inr None, [LogError EnvNotFullySet]))
   \<and> (env_ready cfg \<longrightarrow>
      timeline (snd (get_db_connection cfg)) \<in> set (map (spaced 5) [1, 2, 3, 4, 5]))
   \<and> (env_ready cfg \<and> 1 \<le> k \<and> k \<le> 5
      \<and> list_all (\<lambda>j. is_operational (connect_plan cfg j)) [1 ..< k]
      \<and> connect_plan cfg k = Connected \<longrightarrow>
      fst (get_db_connection cfg) = Inr (Some Connection)
      \<and> timeline (snd (get_db_connection cfg)) = spaced 5 k)
   \<and> (env_ready cfg \<and> list_all (\<lambda>j. is_operational (connect_plan cfg j)) [1 ..< 6] \<longrightarrow>
      fst (get_db_connection cfg) = Inr None
      \<and> timeline (snd (get_db_connection cfg)) = spaced 5 5)"
proof (intro conjI impI)
  assume "env_absent cfg \<or> \<not> env_ready cfg"
  then have "\<not> env_ready cfg"
    using env_absent_unready by blast
  then show "get_db_connection cfg = (Inr None, [LogError EnvNotFullySet])"
    by (rule get_db_connection_unready)
next
  assume "env_ready cfg"
  then show "timeline (snd (get_db_connection cfg)) \<in> set (map (spaced 5) [1, 2, 3, 4, 5])"
    using connect_loop_timeline [of cfg] by (simp only: get_db_connection_ready)
next
  assume h: "env_ready cfg \<and> 1 \<le> k \<and> k \<le> 5
      \<and> list_all (\<lambda>j. is_operational (connect_plan cfg j)) [1 ..< k]
      \<and> connect_plan cfg k = Connected"
  then have "fst (connect_loop cfg [1, 2, 3, 4, 5]) = Inr (Some Connection)
       \<and> timeline (snd (connect_loop cfg [1, 2, 3, 4, 5])) = spaced 5 k"
    by (intro connect_loop_success) simp_all
  with h show "fst (get_db_connection cfg) = Inr (Some Connection)"
    and "timeline (snd (get_db_connection cfg)) = spaced 5 k"
    by (simp_all only: get_db_connection_ready)
next
  assume h: "env_ready cfg \<and> list_all (\<lambda>j. is_operational (connect_plan cfg j)) [1 ..< 6]"
  then have "fst (connect_loop cfg [1, 2, 3, 4, 5]) = Inr None
       \<and> timeline (snd (connect_loop cfg [1, 2, 3, 4, 5])) = spaced 5 5"
    by (intro connect_loop_exhausted) simp
  with h show "fst (get_db_connection cfg) = Inr None"
    and "timeline (snd (get_db_connection cfg)) = spaced 5 5"
    by (simp_all only: get_db_connection_ready)
qed

lemma sample_envs:
  "env_absent cfg_no_env" "env_ready cfg_late" "env_ready cfg_down" "env_ready cfg_up"
  "\<not> env_absent cfg_blank_pass" "\<not> env_ready cfg_blank_pass"
  by (simp_all add: env_absent_def env_ready_def cfg_no_env_def cfg_late_def cfg_down_def
      cfg_up_def cfg_blank_pass_def env_full_def)

theorem get_db_connection_attempts_witness:
  "env_absent cfg_no_env
   \<and> get_db_connection cfg_no_env = (Inr None, [LogError EnvNotFullySet])
   \<and> env_ready cfg_late
   \<and> list_all (\<lambda>j. is_operational (connect_plan cfg_late j)) [1 ..< 3]
   \<and> connect_plan cfg_late 3 = Connected
   \<and> fst (get_db_connection cfg_late) = Inr (Some Connection)
   \<and> timeline (snd (get_db_connection cfg_late)) = [Attempt, Wait 5, Attempt, Wait 5, Attempt]
   \<and> env_ready cfg_down
   \<and> list_all (\<lambda>j. is_operational (connect_plan cfg_down j)) [1 ..< 6]
   \<and> fst (get_db_connection cfg_down) = Inr None
   \<and> timeline (snd (get_db_connection cfg_down))
       = [Attempt, Wait 5, Attempt, Wait 5, Attempt, Wait 5, Attempt, Wait 5, Attempt]"
proof -
  have late: "list_all (\<lambda>j. is_operational (connect_plan cfg_late j)) [1 ..< 3]"
    "connect_plan cfg_late 3 = Connected"
    by (simp_all add: cfg_late_def cfg_up_def upt_rec)
  have down: "list_all (\<lambda>j. is_operational (connect_plan cfg_down j)) [1 ..< 6]"
    by (simp add: cfg_down_def cfg_up_def upt_rec)
  show ?thesis
    using get_db_connection_attempts [of cfg_no_env 1]
      get_db_connection_attempts [of cfg_late 3]
      get_db_connection_attempts [of cfg_down 1]
      sample_envs late down
    by (simp add: eval_nat_numeral)
qed

text \<open>
  Claim C1 as stated does not hold: with all four variables set, \<^verbatim>\<open>DB_PASS\<close> to the
  empty string, and a database that would accept the first attempt, no attempt is made
  and \<^verbatim>\<open>None\<close> is returned.
\<close>

theorem get_db_connection_blank_password:
  "\<not> env_absent cfg_blank_pass
   \<and> connect_plan cfg_blank_pass 1 = Connected
   \<and> fst (get_db_connection cfg_blank_pass) = Inr None
   \<and> timeline (snd (get_db_connection cfg_blank_pass)) = []"
  by (simp add: get_db_connection_unready sample_envs) (simp add: cfg_blank_pass_def cfg_up_def)

section \<open>Store lookups and the outcomes of acquisition\<close>

lemma get_db_connection_cases:
  obtains (raised) e evs where "get_db_connection cfg = (Inl e, evs)"
  | (failed) evs where "get_db_connection cfg = (Inr None, evs)"
  | (opened) conn evs where "get_db_connection cfg = (Inr (Some conn), evs)"
proof (cases "get_db_connection cfg")
  case (Pair r evs)
  then show ?thesis
    using that by (cases r) (auto split: option.splits)
qed

lemma cfg_up_connects: "get_db_connection cfg_up = (Inr (Some Connection), [Connect 1 Connected])"
  by (simp add: get_db_connection_ready sample_envs) (simp add: cfg_up_def)

lemma close_open_session: "close (open_session db) = db"
  by (simp add: close_def open_session_def)

lemma no_row_with_id:
  "item_id \<notin> fst ` set rows \<Longrightarrow> filter (\<lambda>r. fst r = item_id) rows = []"
  by (induction rows) auto

lemma first_row_with_id:
  "item_id \<in> fst ` set rows \<Longrightarrow> \<exists>r. fetchone (filter (\<lambda>r. fst r = item_id) rows) = Some r"
  by (induction rows) (auto simp add: fetchone_def)

section \<open>Delete\<close>

lemma delete_news_absent_unchanged:
  assumes "item_id \<notin> fst ` set (news db)"
  shows "fst (snd (delete_news cfg item_id db)) = db"
proof (cases cfg rule: get_db_connection_cases)
  case (opened conn evs)
  then show ?thesis
    using assms
    by (cases "stmt_fault cfg (DeleteNewsById item_id)"; cases "rollback_fault cfg")
       (simp_all add: delete_news_def delete_news_try_def execute_def commit_def try_rollback_def
          fetchone_def close_def open_session_def no_row_with_id)
qed (simp_all add: delete_news_def)

lemma delete_news_absent:
  assumes "get_db_connection cfg = (Inr (Some conn), evs)"
    and "stmt_fault cfg (DeleteNewsById item_id) = None"
    and "item_id \<notin> fst ` set (news db)"
  shows "delete_news cfg item_id db
        = (Inl (HTTPException 404 ''Item not found''), db,
           evs @ [Execute (DeleteNewsById item_id), Close])"
  using assms
  by (simp add: delete_news_def delete_news_try_def execute_def fetchone_def close_def
      open_session_def no_row_with_id)

lemma delete_news_present:
  assumes acq: "get_db_connection cfg = (Inr (Some conn), evs)"
    and nf: "stmt_fault cfg (DeleteNewsById item_id) = None" "commit_fault cfg = None"
    and present: "item_id \<in> fst ` set (news db)"
  shows "delete_news cfg item_id db
        = (Inr (JObj [(''status'', JStr ''deleted''), (''id'', JNum item_id)], 200),
           \<lparr>news = filter (\<lambda>r. fst r \<noteq> item_id) (news db), next_id = next_id db\<rparr>,
           evs @ [Execute (DeleteNewsById item_id), Commit, Close])"
proof -
  from first_row_with_id [OF present] obtain r where
    found: "fetchone (filter (\<lambda>r. fst r = item_id) (news db)) = Some r" ..
  have block: "delete_news_try cfg item_id (open_session db)
      = (Inr (), \<lparr>committed = filter (\<lambda>r. fst r \<noteq> item_id) (news db),
                  working = filter (\<lambda>r. fst r \<noteq> item_id) (news db), serial = next_id db\<rparr>,
         [Execute (DeleteNewsById item_id), Commit])"
    by (simp add: delete_news_try_def execute_def commit_def open_session_def nf found)
  show ?thesis
    by (simp add: delete_news_def acq block close_def)
qed

text \<open>
  Claim C4. Deleting an id that no row has leaves the database as it was, whatever the
  surroundings. When the connection is acquired and the \<^verbatim>\<open>DELETE\<close> statement does not
  raise, an absent id gives the abort 404 (answered with status 404, not 500) after the
  statement and the close, with no commit; a present id, when the commit does not raise
  either, removes every row with that id, commits, closes, and returns 200 with
  \<^verbatim>\<open>{"status": "deleted", "id": id}\<close>.
\<close>

theorem delete_news_by_presence:
  "(item_id \<notin> fst ` set (news db) \<longrightarrow> fst (snd (delete_news cfg item_id db)) = db)
   \<and> (get_db_connection cfg = (Inr (Some conn), evs)
      \<and> stmt_fault cfg (DeleteNewsById item_id) = None
      \<and> item_id \<notin> fst ` set (news db) \<longrightarrow>
      delete_news cfg item_id db
        = (Inl (HTTPException 404 ''Item not found''), db,
           evs @ [Execute (DeleteNewsById item_id), Close])
      \<and> status_code (respond (fst (delete_news cfg item_id db))) = 404)
   \<and> (get_db_connection cfg = (Inr (Some conn), evs)
      \<and> stmt_fault cfg (DeleteNewsById item_id) = None
      \<and> commit_fault cfg = None
      \<and> item_id \<in> fst ` set (news db) \<longrightarrow>
      delete_news cfg item_id db
        = (Inr (JObj [(''status'', JStr ''deleted''), (''id'', JNum item_id)], 200),
           \<lparr>news = filter (\<lambda>r. fst r \<noteq> item_id) (news db), next_id = next_id db\<rparr>,
           evs @ [Execute (DeleteNewsById item_id), Commit, Close]))"
proof (intro conjI impI)
  assume "item_id \<notin> fst ` set (news db)"
  then show "fst (snd (delete_news cfg item_id db)) = db"
    by (rule delete_news_absent_unchanged)
next
  assume h: "get_db_connection cfg = (Inr (Some conn), evs)
      \<and> stmt_fault cfg (DeleteNewsById item_id) = None
      \<and> item_id \<notin> fst ` set (news db)"
  then have "get_db_connection cfg = (Inr (Some conn), evs)"
    and "stmt_fault cfg (DeleteNewsById item_id) = None"
    and "item_id \<notin> fst ` set (news db)"
    by simp_all
  then have gone: "delete_news cfg item_id db
        = (Inl (HTTPException 404 ''Item not found''), db,
           evs @ [Execute (DeleteNewsById item_id), Close])"
    by (rule delete_news_absent)
  then show "delete_news cfg item_id db
        = (Inl (HTTPException 404 ''Item not found''), db,
           evs @ [Execute (DeleteNewsById item_id), Close])" .
  show "status_code (respond (fst (delete_news cfg item_id db))) = 404"
    by (simp add: gone respond_def handle_http_exception_def)
next
  assume h: "get_db_connection cfg = (Inr (Some conn), evs)
      \<and> stmt_fault cfg (DeleteNewsById item_id) = None
      \<and> commit_fault cfg = None
      \<and> item_id \<in> fst ` set (news db)"
  then have "get_db_connection cfg = (Inr (Some conn), evs)"
    and "stmt_fault cfg (DeleteNewsById item_id) = None"
    and "commit_fault cfg = None"
    and "item_id \<in> fst ` set (news db)"
    by simp_all
  then show "delete_news cfg item_id db
        = (Inr (JObj [(''status'', JStr ''deleted''), (''id'', JNum item_id)], 200),
           \<lparr>news = filter (\<lambda>r. fst r \<noteq> item_id) (news db), next_id = next_id db\<rparr>,
           evs @ [Execute (DeleteNewsById item_id), Commit, Close])"
    by (rule delete_news_present)
qed

theorem delete_news_by_presence_witness:
  "7 \<notin> fst ` set (news db_one)
   \<and> get_db_connection cfg_up = (Inr (Some Connection), [Connect 1 Connected])
   \<and> stmt_fault cfg_up (DeleteNewsById 7) = None
   \<and> delete_news cfg_up 7 db_one
        = (Inl (HTTPException 404 ''Item not found''), db_one,
           [Connect 1 Connected, Execute (DeleteNewsById 7), Close])
   \<and> status_code (respond (fst (delete_news cfg_up 7 db_one))) = 404
   \<and> 1 \<in> fst ` set (news db_one)
   \<and> stmt_fault cfg_up (DeleteNewsById 1) = None
   \<and> commit_fault cfg_up = None
   \<and> delete_news cfg_up 1 db_one
        = (Inr (JObj [(''status'', JStr ''deleted''), (''id'', JNum 1)], 200),
           \<lparr>news = [], next_id = 2\<rparr>,
           [Connect 1 Connected, Execute (DeleteNewsById 1), Commit, Close])"
proof -
  have absent: "7 \<notin> fst ` set (news db_one)" and present: "1 \<in> fst ` set (news db_one)"
    by (simp_all add: db_one_def)
  have healthy: "stmt_fault cfg_up (DeleteNewsById 7) = None"
    "stmt_fault cfg_up (DeleteNewsById 1) = None" "commit_fault cfg_up = None"
    by (simp_all add: cfg_up_def)
  have rest: "filter (\<lambda>r. fst r \<noteq> 1) (news db_one) = []" "next_id db_one = 2"
    by (simp_all add: db_one_def)
  show ?thesis
    using delete_news_by_presence [of 7 db_one cfg_up Connection "[Connect 1 Connected]"]
      delete_news_by_presence [of 1 db_one cfg_up Connection "[Connect 1 Connected]"]
      absent present healthy cfg_up_connects rest
    by (simp add: respond_def handle_http_exception_def)
qed

section \<open>Create\<close>

lemma create_news_fields_valid:
  assumes "map_of kvs ''title'' = Some (JStr s)" and "strip s \<noteq> []"
  shows "create_news_fields (JObj kvs)
       = Inr (JStr (strip s), case map_of kvs ''content'' of None \<Rightarrow> JStr [] | Some v \<Rightarrow> v)"
  using assms by (simp add: create_news_fields_def title_invalid_def)

lemma create_news_try_ok:
  assumes "stmt_fault cfg (InsertNews title content) = None" and "commit_fault cfg = None"
  shows "create_news_try cfg title content (open_session db)
       = (Inr (item_of (next_id db) title content),
          \<lparr>committed = news db @ [(next_id db, title, content)],
           working = news db @ [(next_id db, title, content)],
           serial = next_id db + 1\<rparr>,
          [Execute (InsertNews title content), Commit])"
  using assms
  by (simp add: create_news_try_def execute_def commit_def open_session_def fetchone_def)

text \<open>
  Claim C9. A create request whose body is a JSON object with a string title that is
  not empty after trimming, served with a connection and no database exception, is
  answered 201 with \<^verbatim>\<open>{"id": id, "title": t, "content": c}\<close>: \<open>id\<close> is the id the store
  assigned, \<open>t\<close> the trimmed title, \<open>c\<close> the content of the request, or the empty string
  when the request has none. The row \<open>(id, t, c)\<close> is what the insert adds and the commit
  publishes.
\<close>

theorem create_news_valid:
  assumes title: "map_of kvs ''title'' = Some (JStr s)" "strip s \<noteq> []"
    and content: "content = (case map_of kvs ''content'' of None \<Rightarrow> JStr [] | Some v \<Rightarrow> v)"
    and acq: "get_db_connection cfg = (Inr (Some conn), evs)"
    and nf: "stmt_fault cfg (InsertNews (JStr (strip s)) content) = None" "commit_fault cfg = None"
  shows "create_news cfg (Parsed (JObj kvs)) db
       = (Inr (JObj [(''id'', JNum (next_id db)), (''title'', JStr (strip s)),
                     (''content'', content)], 201),
          \<lparr>news = news db @ [(next_id db, JStr (strip s), content)],
           next_id = next_id db + 1\<rparr>,
          evs @ [Execute (InsertNews (JStr (strip s)) content), Commit, Close])"
proof -
  have fields: "create_news_fields (JObj kvs) = Inr (JStr (strip s), content)"
    using create_news_fields_valid [OF title] content by simp
  show ?thesis
    by (simp add: create_news_def fields acq create_news_try_ok [OF nf] close_def item_of_def)
qed


lemma strip_samples: "strip ''  Hello  '' = ''Hello''" "strip ''News'' = ''News''" "strip ''   '' = []"
  "strip [] = []"
  by (simp_all add: strip_def is_space_def)

theorem create_news_valid_witness:
  "map_of [(''title'', JStr ''  Hello  '')] ''title'' = Some (JStr ''  Hello  '')
   \<and> strip ''  Hello  '' \<noteq> []
   \<and> get_db_connection cfg_up = (Inr (Some Connection), [Connect 1 Connected])
   \<and> stmt_fault cfg_up (InsertNews (JStr (strip ''  Hello  '')) (JStr [])) = None
   \<and> commit_fault cfg_up = None
   \<and> create_news cfg_up (Parsed (JObj [(''title'', JStr ''  Hello  '')])) db_one
       = (Inr (JObj [(''id'', JNum 2), (''title'', JStr ''Hello''), (''content'', JStr [])], 201),
          \<lparr>news = [(1, JStr ''Hello'', JStr ''first''), (2, JStr ''Hello'', JStr [])],
           next_id = 3\<rparr>,
          [Connect 1 Connected, Execute (InsertNews (JStr ''Hello'') (JStr [])), Commit, Close])"
proof -
  have title: "map_of [(''title'', JStr ''  Hello  '')] ''title'' = Some (JStr ''  Hello  '')"
    "strip ''  Hello  '' \<noteq> []"
    by (simp_all add: strip_samples)
  have content: "JStr [] = (case map_of [(''title'', JStr ''  Hello  '')] ''content'' of
      None \<Rightarrow> JStr [] | Some v \<Rightarrow> v)"
    by simp
  have healthy: "stmt_fault cfg_up (InsertNews (JStr (strip ''  Hello  '')) (JStr [])) = None"
    "commit_fault cfg_up = None"
    by (simp_all add: cfg_up_def)
  show ?thesis
    using create_news_valid [OF title content cfg_up_connects healthy, of db_one] title healthy
      cfg_up_connects
    by (simp add: strip_samples db_one_def)
qed

section \<open>Update\<close>

lemma only_row_with_id:
  "distinct (map fst rows) \<Longrightarrow> (item_id, t0, c0) \<in> set rows \<Longrightarrow>
   filter (\<lambda>r. fst r = item_id) rows = [(item_id, t0, c0)]"
proof (induction rows)
  case Nil
  then show ?case by simp
next
  case (Cons r rows)
  show ?case
  proof (cases "r = (item_id, t0, c0)")
    case True
    with Cons.prems(1) have "item_id \<notin> fst ` set rows" by simp
    then have "filter (\<lambda>r. fst r = item_id) rows = []" by (rule no_row_with_id)
    with True show ?thesis by simp
  next
    case False
    with Cons.prems have here: "(item_id, t0, c0) \<in> set rows" by simp
    then have "item_id \<in> fst ` set rows" by force
    with Cons.prems(1) have "fst r \<noteq> item_id" by auto
    with Cons.IH Cons.prems(1) here show ?thesis by simp
  qed
qed

lemma update_news_try_ok:
  assumes rows: "distinct (map fst (news db))" "(item_id, t0, c0) \<in> set (news db)"
    and t: "t = (case map_of kvs ''title'' of None \<Rightarrow> t0 | Some v \<Rightarrow> v)"
    and c: "c = (case map_of kvs ''content'' of None \<Rightarrow> c0 | Some v \<Rightarrow> v)"
    and nf: "stmt_fault cfg (SelectNewsById item_id) = None"
      "stmt_fault cfg (UpdateNews t c item_id) = None" "commit_fault cfg = None"
  shows "update_news_try cfg item_id (JObj kvs) (open_session db)
       = (Inr (item_of item_id t c),
          \<lparr>committed = map (\<lambda>r. if fst r = item_id then (item_id, t, c) else r) (news db),
           working = map (\<lambda>r. if fst r = item_id then (item_id, t, c) else r) (news db),
           serial = next_id db\<rparr>,
          [Execute (SelectNewsById item_id), Execute (UpdateNews t c item_id), Commit])"
proof -
  have found: "fetchone (filter (\<lambda>r. fst r = item_id) (news db)) = Some (item_id, t0, c0)"
    by (simp add: only_row_with_id [OF rows] fetchone_def)
  have t': "(case map_of kvs ''title'' of None \<Rightarrow> t0 | Some v \<Rightarrow> v) = t"
    and c': "(case map_of kvs ''content'' of None \<Rightarrow> c0 | Some v \<Rightarrow> v) = c"
    using t c by simp_all
  show ?thesis
    by (simp add: update_news_try_def execute_def commit_def open_session_def found t' c' nf)
qed

text \<open>
  Claim C3. For a row \<open>(item_id, t0, c0)\<close> of a table whose ids are distinct, an update whose
  body is a JSON object, served with a connection and no database exception, first
  selects the row, then writes \<open>(t, c)\<close>, commits and closes, where \<open>t\<close> is the title of the
  body, or \<open>t0\<close> when the body has none, and \<open>c\<close> likewise for the content. It answers 200
  with \<^verbatim>\<open>{"id": item_id, "title": t, "content": c}\<close>; the other rows are untouched. So a
  field that the body does not supply keeps its stored value.
\<close>

theorem update_news_partial:
  assumes rows: "distinct (map fst (news db))" "(item_id, t0, c0) \<in> set (news db)"
    and t: "t = (case map_of kvs ''title'' of None \<Rightarrow> t0 | Some v \<Rightarrow> v)"
    and c: "c = (case map_of kvs ''content'' of None \<Rightarrow> c0 | Some v \<Rightarrow> v)"
    and acq: "get_db_connection cfg = (Inr (Some conn), evs)"
    and nf: "stmt_fault cfg (SelectNewsById item_id) = None"
      "stmt_fault cfg (UpdateNews t c item_id) = None" "commit_fault cfg = None"
  shows "update_news cfg item_id (Parsed (JObj kvs)) db
       = (Inr (JObj [(''id'', JNum item_id), (''title'', t), (''content'', c)], 200),
          \<lparr>news = map (\<lambda>r. if fst r = item_id then (item_id, t, c) else r) (news db),
           next_id = next_id db\<rparr>,
          evs @ [Execute (SelectNewsById item_id), Execute (UpdateNews t c item_id), Commit,
                 Close])
       \<and> (map_of kvs ''title'' = None \<longrightarrow> t = t0)
       \<and> (map_of kvs ''content'' = None \<longrightarrow> c = c0)"
proof (intro conjI impI)
  show "update_news cfg item_id (Parsed (JObj kvs)) db
       = (Inr (JObj [(''id'', JNum item_id), (''title'', t), (''content'', c)], 200),
          \<lparr>news = map (\<lambda>r. if fst r = item_id then (item_id, t, c) else r) (news db),
           next_id = next_id db\<rparr>,
          evs @ [Execute (SelectNewsById item_id), Execute (UpdateNews t c item_id), Commit,
                 Close])"
    by (simp add: update_news_def acq update_news_try_ok [OF rows t c nf] close_def item_of_def)
next
  assume "map_of kvs ''title'' = None"
  with t show "t = t0" by simp
next
  assume "map_of kvs ''content'' = None"
  with c show "c = c0" by simp
qed

theorem update_news_partial_witness:
  "distinct (map fst (news db_one))
   \<and> (1, JStr ''Hello'', JStr ''first'') \<in> set (news db_one)
   \<and> map_of [(''content'', JStr ''x'')] ''title'' = None
   \<and> get_db_connection cfg_up = (Inr (Some Connection), [Connect 1 Connected])
   \<and> stmt_fault cfg_up (SelectNewsById 1) = None
   \<and> stmt_fault cfg_up (UpdateNews (JStr ''Hello'') (JStr ''x'') 1) = None
   \<and> commit_fault cfg_up = None
   \<and> update_news cfg_up 1 (Parsed (JObj [(''content'', JStr ''x'')])) db_one
       = (Inr (JObj [(''id'', JNum 1), (''title'', JStr ''Hello''), (''content'', JStr ''x'')],
               200),
          \<lparr>news = [(1, JStr ''Hello'', JStr ''x'')], next_id = 2\<rparr>,
          [Connect 1 Connected, Execute (SelectNewsById 1),
           Execute (UpdateNews (JStr ''Hello'') (JStr ''x'') 1), Commit, Close])"
proof -
  have rows: "distinct (map fst (news db_one))"
    "(1, JStr ''Hello'', JStr ''first'') \<in> set (news db_one)"
    by (simp_all add: db_one_def)
  have t: "JStr ''Hello'' = (case map_of [(''content'', JStr ''x'')] ''title'' of
      None \<Rightarrow> JStr ''Hello'' | Some v \<Rightarrow> v)"
    and c: "JStr ''x'' = (case map_of [(''content'', JStr ''x'')] ''content'' of
      None \<Rightarrow> JStr ''first'' | Some v \<Rightarrow> v)"
    by simp_all
  have healthy: "stmt_fault cfg_up (SelectNewsById 1) = None"
    "stmt_fault cfg_up (UpdateNews (JStr ''Hello'') (JStr ''x'') 1) = None"
    "commit_fault cfg_up = None"
    by (simp_all add: cfg_up_def)
  show ?thesis
    using update_news_partial [OF rows t c cfg_up_connects healthy] rows healthy cfg_up_connects
    by (simp add: db_one_def)
qed

section \<open>Content is passed on as it comes\<close>

lemma create_news_try_executes:
  "Execute (InsertNews title content) \<in> set (snd (snd (create_news_try cfg title content s)))"
  by (cases "stmt_fault cfg (InsertNews title content)"; cases "commit_fault cfg")
     (simp_all add: create_news_try_def execute_def commit_def fetchone_def)

lemma create_news_executes:
  assumes fields: "create_news_fields payload = Inr (title, content)"
    and acq: "get_db_connection cfg = (Inr (Some conn), evs)"
  shows "Execute (InsertNews title content) \<in> set (snd (snd (create_news cfg (Parsed payload) db)))"
proof -
  obtain r s es where block: "create_news_try cfg title content (open_session db) = (r, s, es)"
    by (cases "create_news_try cfg title content (open_session db)") auto
  with create_news_try_executes [of title content cfg "open_session db"]
  have "Execute (InsertNews title content) \<in> set es" by simp
  then show ?thesis
    by (cases r; cases "try_rollback cfg s") (simp_all add: create_news_def fields acq block)
qed

lemma update_news_try_executes:
  assumes rows: "distinct (map fst (news db))" "(item_id, t0, c0) \<in> set (news db)"
    and nf: "stmt_fault cfg (SelectNewsById item_id) = None"
  shows "Execute (UpdateNews (case map_of kvs ''title'' of None \<Rightarrow> t0 | Some w \<Rightarrow> w)
                            (case map_of kvs ''content'' of None \<Rightarrow> c0 | Some w \<Rightarrow> w) item_id)
         \<in> set (snd (snd (update_news_try cfg item_id (JObj kvs) (open_session db))))"
proof -
  have found: "fetchone (filter (\<lambda>r. fst r = item_id) (news db)) = Some (item_id, t0, c0)"
    by (simp add: only_row_with_id [OF rows] fetchone_def)
  show ?thesis
    by (cases "stmt_fault cfg (UpdateNews (case map_of kvs ''title'' of None \<Rightarrow> t0 | Some w \<Rightarrow> w)
                            (case map_of kvs ''content'' of None \<Rightarrow> c0 | Some w \<Rightarrow> w) item_id)";
        cases "commit_fault cfg")
       (simp_all add: update_news_try_def execute_def commit_def open_session_def found nf)
qed

lemma update_news_executes:
  assumes rows: "distinct (map fst (news db))" "(item_id, t0, c0) \<in> set (news db)"
    and nf: "stmt_fault cfg (SelectNewsById item_id) = None"
    and acq: "get_db_connection cfg = (Inr (Some conn), evs)"
  shows "Execute (UpdateNews (case map_of kvs ''title'' of None \<Rightarrow> t0 | Some w \<Rightarrow> w)
                            (case map_of kvs ''content'' of None \<Rightarrow> c0 | Some w \<Rightarrow> w) item_id)
         \<in> set (snd (snd (update_news cfg item_id (Parsed (JObj kvs)) db)))"
proof -
  obtain r s es where
    block: "update_news_try cfg item_id (JObj kvs) (open_session db) = (r, s, es)"
    by (cases "update_news_try cfg item_id (JObj kvs) (open_session db)") auto
  with update_news_try_executes [OF rows nf, of kvs]
  have "Execute (UpdateNews (case map_of kvs ''title'' of None \<Rightarrow> t0 | Some w \<Rightarrow> w)
                            (case map_of kvs ''content'' of None \<Rightarrow> c0 | Some w \<Rightarrow> w) item_id)
         \<in> set es" by simp
  then show ?thesis
  proof (cases r)
    case (Inl x)
    then show ?thesis
      using \<open>_ \<in> set es\<close>
      by (cases x; cases "try_rollback cfg s") (simp_all add: update_news_def acq block)
  next
    case (Inr item)
    then show ?thesis
      using \<open>_ \<in> set es\<close> by (simp add: update_news_def acq block)
  qed
qed

text \<open>
  Claim C10. For a JSON object body whose title is a string not empty after trimming, the
  check of \<open>create_news\<close> passes whatever value \<open>v\<close> the body gives for the content, and with a
  connection the handler executes the insert with the trimmed title and \<open>v\<close> itself as
  parameters. For a row of a table with distinct ids, with a connection and a \<^verbatim>\<open>SELECT\<close>
  that does not raise, \<open>update_news\<close> executes the update with the content \<open>v\<close> of the body
  as parameter. Neither handler looks at the type of \<open>v\<close>.
\<close>

theorem content_never_type_checked:
  "(map_of kvs ''title'' = Some (JStr s) \<and> strip s \<noteq> [] \<and> map_of kvs ''content'' = Some v \<longrightarrow>
      create_news_fields (JObj kvs) = Inr (JStr (strip s), v))
   \<and> (map_of kvs ''title'' = Some (JStr s) \<and> strip s \<noteq> [] \<and> map_of kvs ''content'' = Some v
      \<and> get_db_connection cfg = (Inr (Some conn), evs) \<longrightarrow>
      Execute (InsertNews (JStr (strip s)) v)
        \<in> set (snd (snd (create_news cfg (Parsed (JObj kvs)) db))))
   \<and> (distinct (map fst (news db)) \<and> (item_id, t0, c0) \<in> set (news db)
      \<and> map_of kvs ''content'' = Some v
      \<and> get_db_connection cfg = (Inr (Some conn), evs)
      \<and> stmt_fault cfg (SelectNewsById item_id) = None \<longrightarrow>
      Execute (UpdateNews (case map_of kvs ''title'' of None \<Rightarrow> t0 | Some w \<Rightarrow> w) v item_id)
        \<in> set (snd (snd (update_news cfg item_id (Parsed (JObj kvs)) db))))"
proof (intro conjI impI)
  assume h: "map_of kvs ''title'' = Some (JStr s) \<and> strip s \<noteq> [] \<and> map_of kvs ''content'' = Some v"
  then have "map_of kvs ''title'' = Some (JStr s)" and "strip s \<noteq> []" by simp_all
  from create_news_fields_valid [OF this] h
  show "create_news_fields (JObj kvs) = Inr (JStr (strip s), v)" by simp
next
  assume h: "map_of kvs ''title'' = Some (JStr s) \<and> strip s \<noteq> [] \<and> map_of kvs ''content'' = Some v
      \<and> get_db_connection cfg = (Inr (Some conn), evs)"
  then have title: "map_of kvs ''title'' = Some (JStr s)" "strip s \<noteq> []"
    and acq: "get_db_connection cfg = (Inr (Some conn), evs)"
    by simp_all
  from create_news_fields_valid [OF title] h
  have "create_news_fields (JObj kvs) = Inr (JStr (strip s), v)" by simp
  then show "Execute (InsertNews (JStr (strip s)) v)
        \<in> set (snd (snd (create_news cfg (Parsed (JObj kvs)) db)))"
    using acq by (rule create_news_executes)
next
  assume h: "distinct (map fst (news db)) \<and> (item_id, t0, c0) \<in> set (news db)
      \<and> map_of kvs ''content'' = Some v
      \<and> get_db_connection cfg = (Inr (Some conn), evs)
      \<and> stmt_fault cfg (SelectNewsById item_id) = None"
  then have rows: "distinct (map fst (news db))" "(item_id, t0, c0) \<in> set (news db)"
    and nf: "stmt_fault cfg (SelectNewsById item_id) = None"
    and acq: "get_db_connection cfg = (Inr (Some conn), evs)"
    and v: "map_of kvs ''content'' = Some v"
    by simp_all
  from update_news_executes [OF rows nf acq, of kvs] v
  show "Execute (UpdateNews (case map_of kvs ''title'' of None \<Rightarrow> t0 | Some w \<Rightarrow> w) v item_id)
        \<in> set (snd (snd (update_news cfg item_id (Parsed (JObj kvs)) db)))"
    by simp
qed

theorem content_never_type_checked_witness:
  "map_of [(''title'', JStr ''News''), (''content'', JArr [JNum 1, JNull])] ''title''
     = Some (JStr ''News'')
   \<and> strip ''News'' \<noteq> []
   \<and> map_of [(''title'', JStr ''News''), (''content'', JArr [JNum 1, JNull])] ''content''
     = Some (JArr [JNum 1, JNull])
   \<and> get_db_connection cfg_up = (Inr (Some Connection), [Connect 1 Connected])
   \<and> create_news_fields (JObj [(''title'', JStr ''News''), (''content'', JArr [JNum 1, JNull])])
     = Inr (JStr ''News'', JArr [JNum 1, JNull])
   \<and> Execute (InsertNews (JStr ''News'') (JArr [JNum 1, JNull]))
     \<in> set (snd (snd (create_news cfg_up
          (Parsed (JObj [(''title'', JStr ''News''), (''content'', JArr [JNum 1, JNull])])) db_one)))
   \<and> distinct (map fst (news db_one))
   \<and> (1, JStr ''Hello'', JStr ''first'') \<in> set (news db_one)
   \<and> stmt_fault cfg_up (SelectNewsById 1) = None
   \<and> Execute (UpdateNews (JStr ''News'') (JArr [JNum 1, JNull]) 1)
     \<in> set (snd (snd (update_news cfg_up 1
          (Parsed (JObj [(''title'', JStr ''News''), (''content'', JArr [JNum 1, JNull])])) db_one)))"
proof -
  have rows: "distinct (map fst (news db_one))"
    "(1, JStr ''Hello'', JStr ''first'') \<in> set (news db_one)"
    by (simp_all add: db_one_def)
  have healthy: "stmt_fault cfg_up (SelectNewsById 1) = None"
    by (simp add: cfg_up_def)
  show ?thesis
    using content_never_type_checked [of "[(''title'', JStr ''News''), (''content'', JArr [JNum 1, JNull])]"
        "''News''" "JArr [JNum 1, JNull]" cfg_up Connection "[Connect 1 Connected]" db_one 1
        "JStr ''Hello''" "JStr ''first''"]
      rows healthy cfg_up_connects
    by (simp add: strip_samples)
qed

section \<open>Release of the connection\<close>

lemma connect_loop_opened:
  "closed (snd (connect_loop cfg ns)) = 0
   \<and> opened (snd (connect_loop cfg ns))
       = (case fst (connect_loop cfg ns) of Inr (Some conn) \<Rightarrow> 1 | _ \<Rightarrow> 0)"
proof (induction ns)
  case Nil
  show ?case by (simp add: closed_def opened_def)
next
  case (Cons n ns)
  obtain r evs where rest: "connect_loop cfg ns = (r, evs)"
    by (cases "connect_loop cfg ns") auto
  with Cons.IH show ?case
    by (cases "connect_plan cfg n") (simp_all add: closed_def opened_def)
qed

lemma get_db_connection_opened:
  "closed (snd (get_db_connection cfg)) = 0
   \<and> opened (snd (get_db_connection cfg))
       = (case fst (get_db_connection cfg) of Inr (Some conn) \<Rightarrow> 1 | _ \<Rightarrow> 0)"
proof (cases "env_ready cfg")
  case True
  then show ?thesis
    using connect_loop_opened [of cfg "[1, 2, 3, 4, 5]"]
    by (simp only: get_db_connection_ready)
next
  case False
  then show ?thesis
    by (simp add: get_db_connection_unready closed_def opened_def)
qed

lemma acquisition_counts:
  "get_db_connection cfg = (Inl e, evs) \<Longrightarrow> closed evs = 0 \<and> opened evs = 0"
  "get_db_connection cfg = (Inr None, evs) \<Longrightarrow> closed evs = 0 \<and> opened evs = 0"
  "get_db_connection cfg = (Inr (Some conn), evs) \<Longrightarrow> closed evs = 0 \<and> opened evs = 1"
  using get_db_connection_opened [of cfg] by simp_all

lemma counts_append:
  "closed (xs @ ys) = closed xs + closed ys" "opened (xs @ ys) = opened xs + opened ys"
  by (simp_all add: closed_def opened_def)

lemma counts_db_events:
  "closed [] = 0" "opened [] = 0"
  "closed (Execute st # evs) = closed evs" "opened (Execute st # evs) = opened evs"
  "closed (Commit # evs) = closed evs" "opened (Commit # evs) = opened evs"
  "closed (Rollback # evs) = closed evs" "opened (Rollback # evs) = opened evs"
  "closed (LogError m # evs) = closed evs" "opened (LogError m # evs) = opened evs"
  "closed (Close # evs) = Suc (closed evs)" "opened (Close # evs) = opened evs"
  by (simp_all add: closed_def opened_def)

lemma execute_counts:
  "closed (snd (snd (execute cfg st s))) = 0 \<and> opened (snd (snd (execute cfg st s))) = 0"
  by (cases "stmt_fault cfg st"; cases "run_statement st s")
     (simp_all add: execute_def counts_db_events)

lemma commit_counts:
  "closed (snd (snd (commit cfg s))) = 0 \<and> opened (snd (snd (commit cfg s))) = 0"
  by (cases "commit_fault cfg") (simp_all add: commit_def counts_db_events)

lemma try_rollback_counts:
  "closed (snd (try_rollback cfg s)) = 0 \<and> opened (snd (try_rollback cfg s)) = 0"
  by (cases "rollback_fault cfg") (simp_all add: try_rollback_def counts_db_events)


lemma create_news_try_counts:
  "closed (snd (snd (create_news_try cfg title content s))) = 0
   \<and> opened (snd (snd (create_news_try cfg title content s))) = 0"
  by (simp add: create_news_try_def execute_def commit_def fetchone_def counts_db_events
      split: option.splits list.splits prod.splits)

lemma update_news_try_counts:
  "closed (snd (snd (update_news_try cfg item_id payload s))) = 0
   \<and> opened (snd (snd (update_news_try cfg item_id payload s))) = 0"
  by (simp add: update_news_try_def execute_def commit_def fetchone_def counts_db_events
      split: option.splits list.splits prod.splits sum.splits)

lemma delete_news_try_counts:
  "closed (snd (snd (delete_news_try cfg item_id s))) = 0
   \<and> opened (snd (snd (delete_news_try cfg item_id s))) = 0"
  by (simp add: delete_news_try_def execute_def commit_def fetchone_def counts_db_events
      split: option.splits list.splits prod.splits)

lemma db_health_check_counts:
  "closed (snd (snd (db_health_check cfg db))) = opened (snd (snd (db_health_check cfg db)))
   \<and> opened (snd (snd (db_health_check cfg db))) \<le> 1"
  by (cases cfg rule: get_db_connection_cases)
     (simp_all add: db_health_check_def acquisition_counts counts_append counts_db_events)

lemma list_news_counts:
  "closed (snd (snd (list_news cfg db))) = opened (snd (snd (list_news cfg db)))
   \<and> opened (snd (snd (list_news cfg db))) \<le> 1"
proof (cases cfg rule: get_db_connection_cases)
  case (opened conn evs)
  obtain r s es where run: "execute cfg SelectAllNews (open_session db) = (r, s, es)"
    by (cases "execute cfg SelectAllNews (open_session db)") auto
  with execute_counts [of cfg SelectAllNews "open_session db"]
  have "closed es = 0 \<and> opened es = 0" by simp
  then show ?thesis
    by (cases r)
       (simp_all add: list_news_def opened run acquisition_counts(3) [OF opened] counts_append
          counts_db_events)
qed (simp_all add: list_news_def acquisition_counts)

lemma create_news_counts:
  "closed (snd (snd (create_news cfg body db))) = opened (snd (snd (create_news cfg body db)))
   \<and> opened (snd (snd (create_news cfg body db))) \<le> 1"
proof (cases body)
  case (Parsed payload)
  show ?thesis
  proof (cases "create_news_fields payload")
    case (Inl x)
    with Parsed show ?thesis by (simp add: create_news_def counts_db_events)
  next
    case (Inr fields)
    obtain title content where fields: "fields = (title, content)" by (cases fields)
    show ?thesis
    proof (cases cfg rule: get_db_connection_cases)
      case (opened conn evs)
      obtain r s es where
        block: "create_news_try cfg title content (open_session db) = (r, s, es)"
        by (cases "create_news_try cfg title content (open_session db)") auto
      with create_news_try_counts [of cfg title content "open_session db"]
      have es: "closed es = 0 \<and> opened es = 0" by simp
      obtain s' es' where rb: "try_rollback cfg s = (s', es')"
        by (cases "try_rollback cfg s")
      with try_rollback_counts [of cfg s] have es': "closed es' = 0 \<and> opened es' = 0" by simp
      from es es' show ?thesis
        by (cases r)
           (simp_all add: create_news_def Parsed Inr fields opened block rb
              acquisition_counts(3) [OF opened] counts_append counts_db_events)
    qed (simp_all add: create_news_def Parsed Inr fields acquisition_counts)
  qed
qed (simp_all add: create_news_def counts_db_events)

lemma update_news_counts:
  "closed (snd (snd (update_news cfg item_id body db)))
     = opened (snd (snd (update_news cfg item_id body db)))
   \<and> opened (snd (snd (update_news cfg item_id body db))) \<le> 1"
proof (cases body)
  case (Parsed payload)
  show ?thesis
  proof (cases cfg rule: get_db_connection_cases)
    case (opened conn evs)
    obtain r s es where
      block: "update_news_try cfg item_id payload (open_session db) = (r, s, es)"
      by (cases "update_news_try cfg item_id payload (open_session db)") auto
    with update_news_try_counts [of cfg item_id payload "open_session db"]
    have es: "closed es = 0 \<and> opened es = 0" by simp
    obtain s' es' where rb: "try_rollback cfg s = (s', es')"
      by (cases "try_rollback cfg s")
    with try_rollback_counts [of cfg s] have es': "closed es' = 0 \<and> opened es' = 0" by simp
    show ?thesis
    proof (cases r)
      case (Inl x)
      with es es' show ?thesis
        by (cases x)
           (simp_all add: update_news_def Parsed opened block rb
              acquisition_counts(3) [OF opened] counts_append counts_db_events)
    next
      case (Inr item)
      with es show ?thesis
        by (simp add: update_news_def Parsed opened block
            acquisition_counts(3) [OF opened] counts_append counts_db_events)
    qed
  qed (simp_all add: update_news_def Parsed acquisition_counts)
qed (simp_all add: update_news_def counts_db_events)

lemma delete_news_counts:
  "closed (snd (snd (delete_news cfg item_id db)))
     = opened (snd (snd (delete_news cfg item_id db)))
   \<and> opened (snd (snd (delete_news cfg item_id db))) \<le> 1"
proof (cases cfg rule: get_db_connection_cases)
  case (opened conn evs)
  obtain r s es where
    block: "delete_news_try cfg item_id (open_session db) = (r, s, es)"
    by (cases "delete_news_try cfg item_id (open_session db)") auto
  with delete_news_try_counts [of cfg item_id "open_session db"]
  have es: "closed es = 0 \<and> opened es = 0" by simp
  obtain s' es' where rb: "try_rollback cfg s = (s', es')"
    by (cases "try_rollback cfg s")
  with try_rollback_counts [of cfg s] have es': "closed es' = 0 \<and> opened es' = 0" by simp
  show ?thesis
  proof (cases r)
    case (Inl x)
    with es es' show ?thesis
      by (cases x)
         (simp_all add: delete_news_def opened block rb
            acquisition_counts(3) [OF opened] counts_append counts_db_events)
  next
    case (Inr u)
    with es show ?thesis
      by (simp add: delete_news_def opened block
          acquisition_counts(3) [OF opened] counts_append counts_db_events)
  qed
qed (simp_all add: delete_news_def acquisition_counts)

text \<open>
  Claim C8. Whatever the request, the surroundings and the database, a handler calls
  \<^verbatim>\<open>close\<close> as many times as it was given a connection, and that is at most once: every
  path out of a handler that acquired a connection (reply, abort, database exception)
  closes it exactly once, and a path that acquired none closes nothing.
\<close>

theorem connection_closed_once:
  "closed (snd (snd (handle cfg rt body db))) = opened (snd (snd (handle cfg rt body db)))
   \<and> opened (snd (snd (handle cfg rt body db))) \<le> 1"
proof (cases rt)
  case GetIndex
  then show ?thesis by (simp add: handle_def counts_db_events)
next
  case GetDbHealth
  then show ?thesis using db_health_check_counts [of cfg db] by (simp add: handle_def)
next
  case GetNews
  then show ?thesis using list_news_counts [of cfg db] by (simp add: handle_def)
next
  case PostNews
  then show ?thesis using create_news_counts [of cfg body db] by (simp add: handle_def)
next
  case (PutNews item_id)
  then show ?thesis using update_news_counts [of cfg item_id body db] by (simp add: handle_def)
next
  case (DeleteNews item_id)
  then show ?thesis using delete_news_counts [of cfg item_id db] by (simp add: handle_def)
qed

lemma cfg_broken_connects:
  "get_db_connection cfg_broken = (Inr (Some Connection), [Connect 1 Connected])"
proof -
  have "env_ready cfg_broken"
    by (simp add: env_ready_def cfg_broken_def cfg_up_def env_full_def)
  then show ?thesis
    by (simp add: get_db_connection_ready) (simp add: cfg_broken_def cfg_up_def)
qed

lemma sample_runs:
  "handle cfg_up (DeleteNews 7) NotJson db_one
     = (Inl (HTTPException 404 ''Item not found''), db_one,
        [Connect 1 Connected, Execute (DeleteNewsById 7), Close])"
  "handle cfg_up (DeleteNews 1) NotJson db_one
     = (Inr (JObj [(''status'', JStr ''deleted''), (''id'', JNum 1)], 200),
        \<lparr>news = [], next_id = 2\<rparr>,
        [Connect 1 Connected, Execute (DeleteNewsById 1), Commit, Close])"
  "handle cfg_broken (PutNews 1) (Parsed (JObj [])) db_one
     = (Inr (JObj [(''error'', JStr ''server closed the connection unexpectedly'')], 500), db_one,
        [Connect 1 Connected, Execute (SelectNewsById 1),
         LogError (ErrorUpdating ''server closed the connection unexpectedly''), Rollback, Close])"
  "handle cfg_no_env GetNews NotJson db_one
     = (Inr (JObj [(''error'', JStr ''Database connection failed'')], 500), db_one,
        [LogError EnvNotFullySet])"
proof -
  show "handle cfg_up (DeleteNews 7) NotJson db_one
     = (Inl (HTTPException 404 ''Item not found''), db_one,
        [Connect 1 Connected, Execute (DeleteNewsById 7), Close])"
    using delete_news_absent [OF cfg_up_connects, of 7 db_one]
    by (simp add: handle_def cfg_up_def db_one_def)
  show "handle cfg_up (DeleteNews 1) NotJson db_one
     = (Inr (JObj [(''status'', JStr ''deleted''), (''id'', JNum 1)], 200),
        \<lparr>news = [], next_id = 2\<rparr>,
        [Connect 1 Connected, Execute (DeleteNewsById 1), Commit, Close])"
    using delete_news_present [OF cfg_up_connects, of 1 db_one]
    by (simp add: handle_def cfg_up_def db_one_def)
  have "rollback_fault cfg_broken = None"
    by (simp add: cfg_broken_def cfg_up_def)
  moreover have "update_news_try cfg_broken 1 (JObj []) (open_session db_one)
     = (Inl (Uncaught (DatabaseError ''server closed the connection unexpectedly'')),
        open_session db_one, [Execute (SelectNewsById 1)])"
    by (simp add: update_news_try_def execute_def cfg_broken_def)
  ultimately show "handle cfg_broken (PutNews 1) (Parsed (JObj [])) db_one
     = (Inr (JObj [(''error'', JStr ''server closed the connection unexpectedly'')], 500), db_one,
        [Connect 1 Connected, Execute (SelectNewsById 1),
         LogError (ErrorUpdating ''server closed the connection unexpectedly''), Rollback, Close])"
    by (simp add: handle_def update_news_def cfg_broken_connects try_rollback_def error_reply_def
        close_def open_session_def)
  show "handle cfg_no_env GetNews NotJson db_one
     = (Inr (JObj [(''error'', JStr ''Database connection failed'')], 500), db_one,
        [LogError EnvNotFullySet])"
    by (simp add: handle_def list_news_def get_db_connection_unready env_absent_unready
        sample_envs connection_failed_def)
qed

theorem connection_closed_once_witness:
  "closed (snd (snd (handle cfg_up (DeleteNews 7) NotJson db_one))) = 1
   \<and> closed (snd (snd (handle cfg_up (DeleteNews 1) NotJson db_one))) = 1
   \<and> closed (snd (snd (handle cfg_broken (PutNews 1) (Parsed (JObj [])) db_one))) = 1
   \<and> closed (snd (snd (handle cfg_no_env GetNews NotJson db_one))) = 0"
  using connection_closed_once [of cfg_up "DeleteNews 7" NotJson db_one]
    connection_closed_once [of cfg_up "DeleteNews 1" NotJson db_one]
    connection_closed_once [of cfg_broken "PutNews 1" "Parsed (JObj [])" db_one]
    connection_closed_once [of cfg_no_env GetNews NotJson db_one]
  by (simp add: sample_runs opened_def)

section \<open>Aborts\<close>

lemma connect_loop_no_rollback: "Rollback \<notin> set (snd (connect_loop cfg ns))"
proof (induction ns)
  case Nil
  show ?case by simp
next
  case (Cons n ns)
  obtain r evs where rest: "connect_loop cfg ns = (r, evs)"
    by (cases "connect_loop cfg ns") auto
  with Cons.IH show ?case
    by (cases "connect_plan cfg n") simp_all
qed

lemma get_db_connection_no_rollback: "Rollback \<notin> set (snd (get_db_connection cfg))"
proof (cases "env_ready cfg")
  case True
  then show ?thesis
    using connect_loop_no_rollback [of cfg "[1, 2, 3, 4, 5]"]
    by (simp add: get_db_connection_ready del: connect_loop.simps)
next
  case False
  then show ?thesis by (simp add: get_db_connection_unready)
qed

lemma update_news_try_abort:
  assumes "update_news_try cfg item_id payload s = (Inl (HTTPException code description), s', es)"
  shows "s' = s \<and> es = [Execute (SelectNewsById item_id)] \<and> code = 404
       \<and> description = ''Item not found''"
  using assms
  by (simp add: update_news_try_def execute_def commit_def fetchone_def
      split: option.splits list.splits sum.splits prod.splits)

lemma delete_news_try_abort:
  assumes "delete_news_try cfg item_id s = (Inl (HTTPException code description), s', es)"
  shows "committed s' = committed s \<and> serial s' = serial s
       \<and> es = [Execute (DeleteNewsById item_id)] \<and> code = 404
       \<and> description = ''Item not found''"
  using assms
  by (auto simp add: delete_news_try_def execute_def commit_def fetchone_def
      split: option.splits list.splits sum.splits prod.splits)


lemma create_news_abort:
  assumes "create_news cfg body db = (Inl (HTTPException code description), db', evs)"
  shows "db' = db \<and> evs = [] \<and> code = 400"
proof (cases body)
  case NotJson
  with assms show ?thesis by (simp add: create_news_def)
next
  case Malformed
  with assms show ?thesis by (simp add: create_news_def)
next
  case (Parsed payload)
  show ?thesis
  proof (cases "create_news_fields payload")
    case (Inl x)
    with assms Parsed have x: "x = HTTPException code description" and "db' = db" and "evs = []"
      by (simp_all add: create_news_def)
    moreover from Inl x have "code = 400"
      by (simp add: create_news_fields_def split: sum.splits bool.splits json.splits)
    ultimately show ?thesis by simp
  next
    case (Inr fields)
    obtain title content where fields: "fields = (title, content)" by (cases fields)
    show ?thesis
    proof (cases cfg rule: get_db_connection_cases)
      case (opened conn evs0)
      obtain r s es where
        block: "create_news_try cfg title content (open_session db) = (r, s, es)"
        by (cases "create_news_try cfg title content (open_session db)") auto
      obtain s' es' where rb: "try_rollback cfg s = (s', es')"
        by (cases "try_rollback cfg s")
      from assms show ?thesis
        by (cases r) (simp_all add: create_news_def Parsed Inr fields opened block rb)
    next
      case (raised e evs0)
      with assms show ?thesis by (simp add: create_news_def Parsed Inr fields)
    next
      case (failed evs0)
      with assms show ?thesis by (simp add: create_news_def Parsed Inr fields)
    qed
  qed
qed

lemma update_news_abort:
  assumes "update_news cfg item_id body db = (Inl (HTTPException code description), db', evs)"
  shows "db' = db \<and> Rollback \<notin> set evs \<and> (code = 400 \<or> code = 404)"
proof (cases body)
  case NotJson
  with assms show ?thesis by (simp add: update_news_def)
next
  case Malformed
  with assms show ?thesis by (simp add: update_news_def)
next
  case (Parsed payload)
  show ?thesis
  proof (cases cfg rule: get_db_connection_cases)
    case (opened conn evs0)
    from get_db_connection_no_rollback [of cfg] opened have quiet: "Rollback \<notin> set evs0" by simp
    obtain r s es where
      block: "update_news_try cfg item_id payload (open_session db) = (r, s, es)"
      by (cases "update_news_try cfg item_id payload (open_session db)") auto
    obtain s' es' where rb: "try_rollback cfg s = (s', es')"
      by (cases "try_rollback cfg s")
    show ?thesis
    proof (cases r)
      case (Inl x)
      show ?thesis
      proof (cases x)
        case (HTTPException c d)
        with block Inl update_news_try_abort [of cfg item_id payload "open_session db" c d s es]
        have "s = open_session db" "es = [Execute (SelectNewsById item_id)]" "c = 404"
          by simp_all
        with assms quiet show ?thesis
          by (auto simp add: update_news_def Parsed opened block Inl HTTPException
              close_open_session)
      next
        case (Uncaught e)
        with assms show ?thesis
          by (simp add: update_news_def Parsed opened block Inl rb)
      qed
    next
      case (Inr item)
      with assms show ?thesis by (simp add: update_news_def Parsed opened block)
    qed
  next
    case (raised e evs0)
    with assms show ?thesis by (simp add: update_news_def Parsed)
  next
    case (failed evs0)
    with assms show ?thesis by (simp add: update_news_def Parsed)
  qed
qed

lemma delete_news_abort:
  assumes "delete_news cfg item_id db = (Inl (HTTPException code description), db', evs)"
  shows "db' = db \<and> Rollback \<notin> set evs \<and> code = 404"
proof (cases cfg rule: get_db_connection_cases)
  case (opened conn evs0)
  from get_db_connection_no_rollback [of cfg] opened have quiet: "Rollback \<notin> set evs0" by simp
  obtain r s es where
    block: "delete_news_try cfg item_id (open_session db) = (r, s, es)"
    by (cases "delete_news_try cfg item_id (open_session db)") auto
  obtain s' es' where rb: "try_rollback cfg s = (s', es')"
    by (cases "try_rollback cfg s")
  show ?thesis
  proof (cases r)
    case (Inl x)
    show ?thesis
    proof (cases x)
      case (HTTPException c d)
      with block Inl delete_news_try_abort [of cfg item_id "open_session db" c d s es]
      have "committed s = news db" "serial s = next_id db"
        "es = [Execute (DeleteNewsById item_id)]" "c = 404"
        by (simp_all add: open_session_def)
      with assms quiet show ?thesis
        by (auto simp add: delete_news_def opened block Inl HTTPException close_def)
    next
      case (Uncaught e)
      with assms show ?thesis
        by (simp add: delete_news_def opened block Inl rb)
    qed
  next
    case (Inr u)
    with assms show ?thesis by (simp add: delete_news_def opened block)
  qed
next
  case (raised e evs0)
  with assms show ?thesis by (simp add: delete_news_def)
next
  case (failed evs0)
  with assms show ?thesis by (simp add: delete_news_def)
qed

lemma list_news_no_abort: "fst (list_news cfg db) \<noteq> Inl (HTTPException code description)"
proof (cases cfg rule: get_db_connection_cases)
  case (opened conn evs0)
  obtain r s es where run: "execute cfg SelectAllNews (open_session db) = (r, s, es)"
    by (cases "execute cfg SelectAllNews (open_session db)") auto
  show ?thesis
    by (cases r) (simp_all add: list_news_def opened run)
qed (simp_all add: list_news_def)

lemma db_health_check_no_abort:
  "fst (db_health_check cfg db) \<noteq> Inl (HTTPException code description)"
  by (cases cfg rule: get_db_connection_cases) (simp_all add: db_health_check_def)

lemma handle_abort:
  assumes "handle cfg rt body db = (Inl (HTTPException code description), db', evs)"
  shows "db' = db \<and> Rollback \<notin> set evs \<and> (code = 400 \<or> code = 404)"
proof (cases rt)
  case GetIndex
  with assms show ?thesis by (simp add: handle_def)
next
  case GetDbHealth
  with assms db_health_check_no_abort [of cfg db code description] show ?thesis
    by (simp add: handle_def)
next
  case GetNews
  with assms list_news_no_abort [of cfg db code description] show ?thesis
    by (simp add: handle_def)
next
  case PostNews
  with assms create_news_abort [of cfg body db code description db' evs] show ?thesis
    by (simp add: handle_def)
next
  case (PutNews item_id)
  with assms update_news_abort [of cfg item_id body db code description db' evs] show ?thesis
    by (simp add: handle_def)
next
  case (DeleteNews item_id)
  with assms delete_news_abort [of cfg item_id db code description db' evs] show ?thesis
    by (simp add: handle_def)
qed


text \<open>
  Claim C7. A handler that ends with an abort (an \<^verbatim>\<open>HTTPException\<close> with a code and a
  description) has made no rollback and has left the database as it was; the code is 400
  or 404, and the response is the one of the error translator: status the code of the
  abort, content type \<^verbatim>\<open>application/json\<close>, body \<^verbatim>\<open>{"error": description}\<close>. An abort raised
  inside the \<^verbatim>\<open>try\<close> block of \<open>update_news\<close> or \<open>delete_news\<close> leaves the handler as the same
  abort, after the close of the connection and nothing else.
\<close>

theorem aborts_reach_translator:
  "(handle cfg rt body db = (Inl (HTTPException code description), db', evs) \<longrightarrow>
      Rollback \<notin> set evs \<and> db' = db \<and> (code = 400 \<or> code = 404)
      \<and> serve cfg rt body db
        = (\<lparr>status_code = code, content_type = ''application/json'',
            data = JObj [(''error'', JStr description)]\<rparr>, db, evs))
   \<and> (get_db_connection cfg = (Inr (Some conn), evs0)
      \<and> update_news_try cfg item_id payload (open_session db)
        = (Inl (HTTPException code description), s, es) \<longrightarrow>
      update_news cfg item_id (Parsed payload) db
        = (Inl (HTTPException code description), close s, evs0 @ es @ [Close]))
   \<and> (get_db_connection cfg = (Inr (Some conn), evs0)
      \<and> delete_news_try cfg item_id (open_session db)
        = (Inl (HTTPException code description), s, es) \<longrightarrow>
      delete_news cfg item_id db
        = (Inl (HTTPException code description), close s, evs0 @ es @ [Close]))"
proof (intro conjI impI)
  assume run: "handle cfg rt body db = (Inl (HTTPException code description), db', evs)"
  from handle_abort [OF run]
  show "Rollback \<notin> set evs" and same: "db' = db" and "code = 400 \<or> code = 404"
    by simp_all
  from run same
  show "serve cfg rt body db
        = (\<lparr>status_code = code, content_type = ''application/json'',
            data = JObj [(''error'', JStr description)]\<rparr>, db, evs)"
    by (simp add: serve_def respond_def handle_http_exception_def)
next
  assume "get_db_connection cfg = (Inr (Some conn), evs0)
      \<and> update_news_try cfg item_id payload (open_session db)
        = (Inl (HTTPException code description), s, es)"
  then show "update_news cfg item_id (Parsed payload) db
        = (Inl (HTTPException code description), close s, evs0 @ es @ [Close])"
    by (simp add: update_news_def)
next
  assume "get_db_connection cfg = (Inr (Some conn), evs0)
      \<and> delete_news_try cfg item_id (open_session db)
        = (Inl (HTTPException code description), s, es)"
  then show "delete_news cfg item_id db
        = (Inl (HTTPException code description), close s, evs0 @ es @ [Close])"
    by (simp add: delete_news_def)
qed

lemma sample_aborts:
  "handle cfg_up PostNews (Parsed (JObj [(''title'', JStr ''   '')])) db_one
     = (Inl (HTTPException 400 ''Missing or invalid 'title' field''), db_one, [])"
  "update_news_try cfg_up 7 (JObj []) (open_session db_one)
     = (Inl (HTTPException 404 ''Item not found''), open_session db_one,
        [Execute (SelectNewsById 7)])"
  "delete_news_try cfg_up 7 (open_session db_one)
     = (Inl (HTTPException 404 ''Item not found''), open_session db_one,
        [Execute (DeleteNewsById 7)])"
proof -
  have "create_news_fields (JObj [(''title'', JStr ''   '')])
      = Inl (HTTPException 400 ''Missing or invalid 'title' field'')"
    by (simp add: create_news_fields_def title_invalid_def strip_samples)
  then show "handle cfg_up PostNews (Parsed (JObj [(''title'', JStr ''   '')])) db_one
     = (Inl (HTTPException 400 ''Missing or invalid 'title' field''), db_one, [])"
    by (simp add: handle_def create_news_def)
  have free: "stmt_fault cfg_up (SelectNewsById 7) = None"
    "stmt_fault cfg_up (DeleteNewsById 7) = None"
    by (simp_all add: cfg_up_def)
  show "update_news_try cfg_up 7 (JObj []) (open_session db_one)
     = (Inl (HTTPException 404 ''Item not found''), open_session db_one,
        [Execute (SelectNewsById 7)])"
    by (simp add: update_news_try_def execute_def fetchone_def free open_session_def db_one_def)
  show "delete_news_try cfg_up 7 (open_session db_one)
     = (Inl (HTTPException 404 ''Item not found''), open_session db_one,
        [Execute (DeleteNewsById 7)])"
    by (simp add: delete_news_try_def execute_def fetchone_def free open_session_def db_one_def)
qed

theorem aborts_reach_translator_witness:
  "handle cfg_up PostNews (Parsed (JObj [(''title'', JStr ''   '')])) db_one
     = (Inl (HTTPException 400 ''Missing or invalid 'title' field''), db_one, [])
   \<and> serve cfg_up PostNews (Parsed (JObj [(''title'', JStr ''   '')])) db_one
     = (\<lparr>status_code = 400, content_type = ''application/json'',
         data = JObj [(''error'', JStr ''Missing or invalid 'title' field'')]\<rparr>, db_one, [])
   \<and> get_db_connection cfg_up = (Inr (Some Connection), [Connect 1 Connected])
   \<and> update_news_try cfg_up 7 (JObj []) (open_session db_one)
     = (Inl (HTTPException 404 ''Item not found''), open_session db_one,
        [Execute (SelectNewsById 7)])
   \<and> update_news cfg_up 7 (Parsed (JObj [])) db_one
     = (Inl (HTTPException 404 ''Item not found''), db_one,
        [Connect 1 Connected, Execute (SelectNewsById 7), Close])
   \<and> delete_news_try cfg_up 7 (open_session db_one)
     = (Inl (HTTPException 404 ''Item not found''), open_session db_one,
        [Execute (DeleteNewsById 7)])
   \<and> delete_news cfg_up 7 db_one
     = (Inl (HTTPException 404 ''Item not found''), db_one,
        [Connect 1 Connected, Execute (DeleteNewsById 7), Close])"
  using aborts_reach_translator [of cfg_up PostNews "Parsed (JObj [(''title'', JStr ''   '')])"
      db_one 400 "''Missing or invalid 'title' field''" db_one "[]" Connection
      "[Connect 1 Connected]" 7 "JObj []" "open_session db_one" "[Execute (SelectNewsById 7)]"]
    aborts_reach_translator [of cfg_up PostNews "Parsed (JObj [(''title'', JStr ''   '')])"
      db_one 404 "''Item not found''" db_one "[]" Connection
      "[Connect 1 Connected]" 7 "JObj []" "open_session db_one" "[Execute (SelectNewsById 7)]"]
    aborts_reach_translator [of cfg_up PostNews "Parsed (JObj [(''title'', JStr ''   '')])"
      db_one 404 "''Item not found''" db_one "[]" Connection
      "[Connect 1 Connected]" 7 "JObj []" "open_session db_one" "[Execute (DeleteNewsById 7)]"]
    sample_aborts cfg_up_connects
  by (simp add: close_open_session)

section \<open>Failed acquisition\<close>

lemma connect_loop_failed:
  "acquire_failed (snd (connect_loop cfg ns)) = (fst (connect_loop cfg ns) = Inr None)"
proof (induction ns)
  case Nil
  show ?case by (simp add: acquire_failed_def)
next
  case (Cons n ns)
  obtain r evs where rest: "connect_loop cfg ns = (r, evs)"
    by (cases "connect_loop cfg ns") auto
  with Cons.IH show ?case
    by (cases "connect_plan cfg n") (simp_all add: acquire_failed_def)
qed

lemma get_db_connection_failed:
  "acquire_failed (snd (get_db_connection cfg)) = (fst (get_db_connection cfg) = Inr None)"
proof (cases "env_ready cfg")
  case True
  then show ?thesis
    using connect_loop_failed [of cfg "[1, 2, 3, 4, 5]"]
    by (simp add: get_db_connection_ready del: connect_loop.simps)
next
  case False
  then show ?thesis
    by (simp add: get_db_connection_unready acquire_failed_def)
qed

lemma acquisition_failed:
  "get_db_connection cfg = (Inl e, evs) \<Longrightarrow> \<not> acquire_failed evs"
  "get_db_connection cfg = (Inr None, evs) \<Longrightarrow> acquire_failed evs"
  "get_db_connection cfg = (Inr (Some conn), evs) \<Longrightarrow> \<not> acquire_failed evs"
  using get_db_connection_failed [of cfg] by simp_all

lemma failed_append: "acquire_failed (xs @ ys) = (acquire_failed xs \<or> acquire_failed ys)"
  by (auto simp add: acquire_failed_def)

lemma failed_db_events:
  "acquire_failed [] = False"
  "acquire_failed (Execute st # evs) = acquire_failed evs"
  "acquire_failed (Commit # evs) = acquire_failed evs"
  "acquire_failed (Rollback # evs) = acquire_failed evs"
  "acquire_failed (Close # evs) = acquire_failed evs"
  "acquire_failed (LogError (ErrorListing m) # evs) = acquire_failed evs"
  "acquire_failed (LogError (ErrorCreating m) # evs) = acquire_failed evs"
  "acquire_failed (LogError (ErrorUpdating m) # evs) = acquire_failed evs"
  "acquire_failed (LogError (ErrorDeleting m) # evs) = acquire_failed evs"
  by (simp_all add: acquire_failed_def)

lemma execute_not_failed: "\<not> acquire_failed (snd (snd (execute cfg st s)))"
  by (cases "stmt_fault cfg st"; cases "run_statement st s")
     (simp_all add: execute_def failed_db_events)

lemma try_rollback_not_failed: "\<not> acquire_failed (snd (try_rollback cfg s))"
  by (cases "rollback_fault cfg") (simp_all add: try_rollback_def failed_db_events)

lemma create_news_try_not_failed:
  "\<not> acquire_failed (snd (snd (create_news_try cfg title content s)))"
  by (simp add: create_news_try_def execute_def commit_def fetchone_def failed_db_events
      split: option.splits list.splits prod.splits)

lemma update_news_try_not_failed:
  "\<not> acquire_failed (snd (snd (update_news_try cfg item_id payload s)))"
  by (simp add: update_news_try_def execute_def commit_def fetchone_def failed_db_events
      split: option.splits list.splits prod.splits sum.splits)

lemma delete_news_try_not_failed:
  "\<not> acquire_failed (snd (snd (delete_news_try cfg item_id s)))"
  by (simp add: delete_news_try_def execute_def commit_def fetchone_def failed_db_events
      split: option.splits list.splits prod.splits)


lemma list_news_failed:
  assumes "acquire_failed (snd (snd (list_news cfg db)))"
  shows "fst (list_news cfg db) = Inr connection_failed \<and> fst (snd (list_news cfg db)) = db"
proof (cases cfg rule: get_db_connection_cases)
  case (opened conn evs)
  obtain r s es where run: "execute cfg SelectAllNews (open_session db) = (r, s, es)"
    by (cases "execute cfg SelectAllNews (open_session db)") auto
  with execute_not_failed [of cfg SelectAllNews "open_session db"]
  have "\<not> acquire_failed es" by simp
  with assms acquisition_failed(3) [OF opened] show ?thesis
    by (cases r) (simp_all add: list_news_def opened run failed_append failed_db_events)
next
  case (raised e evs)
  with assms acquisition_failed(1) [OF raised] show ?thesis by (simp add: list_news_def)
next
  case (failed evs)
  then show ?thesis by (simp add: list_news_def)
qed

lemma create_news_failed:
  assumes "acquire_failed (snd (snd (create_news cfg body db)))"
  shows "fst (create_news cfg body db) = Inr connection_failed
       \<and> fst (snd (create_news cfg body db)) = db"
proof (cases body)
  case NotJson
  with assms show ?thesis by (simp add: create_news_def failed_db_events)
next
  case Malformed
  with assms show ?thesis by (simp add: create_news_def failed_db_events)
next
  case (Parsed payload)
  show ?thesis
  proof (cases "create_news_fields payload")
    case (Inl x)
    with assms Parsed show ?thesis by (simp add: create_news_def failed_db_events)
  next
    case (Inr fields)
    obtain title content where fields: "fields = (title, content)" by (cases fields)
    show ?thesis
    proof (cases cfg rule: get_db_connection_cases)
      case (opened conn evs)
      obtain r s es where
        block: "create_news_try cfg title content (open_session db) = (r, s, es)"
        by (cases "create_news_try cfg title content (open_session db)") auto
      with create_news_try_not_failed [of cfg title content "open_session db"]
      have es: "\<not> acquire_failed es" by simp
      obtain s' es' where rb: "try_rollback cfg s = (s', es')"
        by (cases "try_rollback cfg s")
      with try_rollback_not_failed [of cfg s] have es': "\<not> acquire_failed es'" by simp
      from assms es es' acquisition_failed(3) [OF opened] show ?thesis
        by (cases r)
           (simp_all add: create_news_def Parsed Inr fields opened block rb failed_append
              failed_db_events)
    next
      case (raised e evs)
      with assms acquisition_failed(1) [OF raised] show ?thesis
        by (simp add: create_news_def Parsed Inr fields)
    next
      case (failed evs)
      then show ?thesis by (simp add: create_news_def Parsed Inr fields)
    qed
  qed
qed

lemma update_news_failed:
  assumes "acquire_failed (snd (snd (update_news cfg item_id body db)))"
  shows "fst (update_news cfg item_id body db) = Inr connection_failed
       \<and> fst (snd (update_news cfg item_id body db)) = db"
proof (cases body)
  case NotJson
  with assms show ?thesis by (simp add: update_news_def failed_db_events)
next
  case Malformed
  with assms show ?thesis by (simp add: update_news_def failed_db_events)
next
  case (Parsed payload)
  show ?thesis
  proof (cases cfg rule: get_db_connection_cases)
    case (opened conn evs)
    obtain r s es where
      block: "update_news_try cfg item_id payload (open_session db) = (r, s, es)"
      by (cases "update_news_try cfg item_id payload (open_session db)") auto
    with update_news_try_not_failed [of cfg item_id payload "open_session db"]
    have es: "\<not> acquire_failed es" by simp
    obtain s' es' where rb: "try_rollback cfg s = (s', es')"
      by (cases "try_rollback cfg s")
    with try_rollback_not_failed [of cfg s] have es': "\<not> acquire_failed es'" by simp
    show ?thesis
    proof (cases r)
      case (Inl x)
      with assms es es' acquisition_failed(3) [OF opened] show ?thesis
        by (cases x)
           (simp_all add: update_news_def Parsed opened block rb failed_append failed_db_events)
    next
      case (Inr item)
      with assms es acquisition_failed(3) [OF opened] show ?thesis
        by (simp add: update_news_def Parsed opened block failed_append failed_db_events)
    qed
  next
    case (raised e evs)
    with assms acquisition_failed(1) [OF raised] show ?thesis
      by (simp add: update_news_def Parsed)
  next
    case (failed evs)
    then show ?thesis by (simp add: update_news_def Parsed)
  qed
qed

lemma delete_news_failed:
  assumes "acquire_failed (snd (snd (delete_news cfg item_id db)))"
  shows "fst (delete_news cfg item_id db) = Inr connection_failed
       \<and> fst (snd (delete_news cfg item_id db)) = db"
proof (cases cfg rule: get_db_connection_cases)
  case (opened conn evs)
  obtain r s es where
    block: "delete_news_try cfg item_id (open_session db) = (r, s, es)"
    by (cases "delete_news_try cfg item_id (open_session db)") auto
  with delete_news_try_not_failed [of cfg item_id "open_session db"]
  have es: "\<not> acquire_failed es" by simp
  obtain s' es' where rb: "try_rollback cfg s = (s', es')"
    by (cases "try_rollback cfg s")
  with try_rollback_not_failed [of cfg s] have es': "\<not> acquire_failed es'" by simp
  show ?thesis
  proof (cases r)
    case (Inl x)
    with assms es es' acquisition_failed(3) [OF opened] show ?thesis
      by (cases x)
         (simp_all add: delete_news_def opened block rb failed_append failed_db_events)
  next
    case (Inr u)
    with assms es acquisition_failed(3) [OF opened] show ?thesis
      by (simp add: delete_news_def opened block failed_append failed_db_events)
  qed
next
  case (raised e evs)
  with assms acquisition_failed(1) [OF raised] show ?thesis by (simp add: delete_news_def)
next
  case (failed evs)
  then show ?thesis by (simp add: delete_news_def)
qed

lemma db_health_check_failed:
  assumes "acquire_failed (snd (snd (db_health_check cfg db)))"
  shows "fst (db_health_check cfg db)
       = Inr (JObj [(''status'', JStr ''error''),
                    (''message'', JStr ''Database connection failed'')], 500)"
proof (cases cfg rule: get_db_connection_cases)
  case (opened conn evs)
  with assms acquisition_failed(3) [OF opened] show ?thesis
    by (simp add: db_health_check_def failed_append failed_db_events)
next
  case (raised e evs)
  with assms acquisition_failed(1) [OF raised] show ?thesis by (simp add: db_health_check_def)
next
  case (failed evs)
  then show ?thesis by (simp add: db_health_check_def)
qed

lemma handle_failed:
  assumes "acquire_failed (snd (snd (handle cfg rt body db)))" and "data_path rt"
  shows "fst (handle cfg rt body db) = Inr connection_failed
       \<and> fst (snd (handle cfg rt body db)) = db"
proof (cases rt)
  case GetNews
  with assms list_news_failed [of cfg db] show ?thesis by (simp add: handle_def)
next
  case PostNews
  with assms create_news_failed [of cfg body db] show ?thesis by (simp add: handle_def)
next
  case (PutNews item_id)
  with assms update_news_failed [of cfg item_id body db] show ?thesis by (simp add: handle_def)
next
  case (DeleteNews item_id)
  with assms delete_news_failed [of cfg item_id db] show ?thesis by (simp add: handle_def)
next
  case GetIndex
  with assms show ?thesis by simp
next
  case GetDbHealth
  with assms show ?thesis by simp
qed


text \<open>
  Claim C6. \<open>get_db_connection\<close> logs one of its two give-up records exactly when it
  returns \<^verbatim>\<open>None\<close>. Whenever that happens while a request is served, \<^verbatim>\<open>GET /news\<close>,
  \<^verbatim>\<open>POST /news\<close>, \<^verbatim>\<open>PUT /news/id\<close> and \<^verbatim>\<open>DELETE /news/id\<close> answer 500 with
  \<^verbatim>\<open>{"error": "Database connection failed"}\<close> and leave the database as it was, and
  \<^verbatim>\<open>GET /db-health\<close> answers 500 with
  \<^verbatim>\<open>{"status": "error", "message": "Database connection failed"}\<close>. \<^verbatim>\<open>GET /\<close> answers 200
  in all surroundings.
\<close>

theorem acquisition_failure_replies:
  "acquire_failed (snd (get_db_connection cfg)) = (fst (get_db_connection cfg) = Inr None)
   \<and> (acquire_failed (snd (snd (handle cfg rt body db))) \<and> data_path rt \<longrightarrow>
      serve cfg rt body db
        = (\<lparr>status_code = 500, content_type = ''application/json'',
            data = JObj [(''error'', JStr ''Database connection failed'')]\<rparr>,
           db, snd (snd (handle cfg rt body db))))
   \<and> (acquire_failed (snd (snd (handle cfg GetDbHealth body db))) \<longrightarrow>
      fst (serve cfg GetDbHealth body db)
        = \<lparr>status_code = 500, content_type = ''application/json'',
           data = JObj [(''status'', JStr ''error''),
                        (''message'', JStr ''Database connection failed'')]\<rparr>)
   \<and> status_code (fst (serve cfg GetIndex body db)) = 200"
proof (intro conjI impI)
  show "acquire_failed (snd (get_db_connection cfg)) = (fst (get_db_connection cfg) = Inr None)"
    by (rule get_db_connection_failed)
next
  assume h: "acquire_failed (snd (snd (handle cfg rt body db))) \<and> data_path rt"
  obtain r db' evs where run: "handle cfg rt body db = (r, db', evs)"
    by (cases "handle cfg rt body db") auto
  from h have "acquire_failed (snd (snd (handle cfg rt body db)))" and "data_path rt"
    by simp_all
  from handle_failed [OF this] run have "r = Inr connection_failed" and "db' = db"
    by simp_all
  with run show "serve cfg rt body db
        = (\<lparr>status_code = 500, content_type = ''application/json'',
            data = JObj [(''error'', JStr ''Database connection failed'')]\<rparr>,
           db, snd (snd (handle cfg rt body db)))"
    by (simp add: serve_def respond_def connection_failed_def)
next
  assume h: "acquire_failed (snd (snd (handle cfg GetDbHealth body db)))"
  obtain r db' evs where run: "db_health_check cfg db = (r, db', evs)"
    by (cases "db_health_check cfg db") auto
  from h have "acquire_failed (snd (snd (db_health_check cfg db)))"
    by (simp add: handle_def)
  from db_health_check_failed [OF this] run
  have "r = Inr (JObj [(''status'', JStr ''error''),
                       (''message'', JStr ''Database connection failed'')], 500)"
    by simp
  with run show "fst (serve cfg GetDbHealth body db)
        = \<lparr>status_code = 500, content_type = ''application/json'',
           data = JObj [(''status'', JStr ''error''),
                        (''message'', JStr ''Database connection failed'')]\<rparr>"
    by (simp add: serve_def handle_def respond_def)
next
  show "status_code (fst (serve cfg GetIndex body db)) = 200"
    by (simp add: serve_def handle_def respond_def index_def)
qed


lemma cfg_no_env_gives_up: "get_db_connection cfg_no_env = (Inr None, [LogError EnvNotFullySet])"
  by (simp add: get_db_connection_unready env_absent_unready sample_envs)

lemma cfg_down_gives_up:
  "get_db_connection cfg_down
     = (Inr None,
        [Connect 1 (OperationalError ''connection refused''),
         LogWarning (DbNotReady 1 5 ''connection refused''), Sleep 5,
         Connect 2 (OperationalError ''connection refused''),
         LogWarning (DbNotReady 2 5 ''connection refused''), Sleep 5,
         Connect 3 (OperationalError ''connection refused''),
         LogWarning (DbNotReady 3 5 ''connection refused''), Sleep 5,
         Connect 4 (OperationalError ''connection refused''),
         LogWarning (DbNotReady 4 5 ''connection refused''), Sleep 5,
         Connect 5 (OperationalError ''connection refused''),
         LogWarning (DbNotReady 5 5 ''connection refused''),
         LogError (CouldNotConnect 5)])"
  by (simp add: get_db_connection_ready sample_envs)
     (simp add: cfg_down_def cfg_up_def retries_def delay_seconds_def)

lemma sample_failures:
  "handle cfg_no_env PostNews (Parsed (JObj [(''title'', JStr ''News'')])) db_one
     = (Inr connection_failed, db_one, [LogError EnvNotFullySet])"
  "handle cfg_no_env (PutNews 1) (Parsed (JObj [])) db_one
     = (Inr connection_failed, db_one, [LogError EnvNotFullySet])"
  "handle cfg_no_env (DeleteNews 1) NotJson db_one
     = (Inr connection_failed, db_one, [LogError EnvNotFullySet])"
  "handle cfg_down GetNews NotJson db_one
     = (Inr connection_failed, db_one, snd (get_db_connection cfg_down))"
  "handle cfg_down GetDbHealth NotJson db_one
     = (Inr (JObj [(''status'', JStr ''error''),
                   (''message'', JStr ''Database connection failed'')], 500),
        db_one, snd (get_db_connection cfg_down))"
proof -
  have "create_news_fields (JObj [(''title'', JStr ''News'')]) = Inr (JStr ''News'', JStr [])"
    using create_news_fields_valid [of "[(''title'', JStr ''News'')]" "''News''"]
    by (simp add: strip_samples)
  then show "handle cfg_no_env PostNews (Parsed (JObj [(''title'', JStr ''News'')])) db_one
     = (Inr connection_failed, db_one, [LogError EnvNotFullySet])"
    by (simp add: handle_def create_news_def cfg_no_env_gives_up)
  show "handle cfg_no_env (PutNews 1) (Parsed (JObj [])) db_one
     = (Inr connection_failed, db_one, [LogError EnvNotFullySet])"
    by (simp add: handle_def update_news_def cfg_no_env_gives_up)
  show "handle cfg_no_env (DeleteNews 1) NotJson db_one
     = (Inr connection_failed, db_one, [LogError EnvNotFullySet])"
    by (simp add: handle_def delete_news_def cfg_no_env_gives_up)
  show "handle cfg_down GetNews NotJson db_one
     = (Inr connection_failed, db_one, snd (get_db_connection cfg_down))"
    by (simp add: handle_def list_news_def cfg_down_gives_up)
  show "handle cfg_down GetDbHealth NotJson db_one
     = (Inr (JObj [(''status'', JStr ''error''),
                   (''message'', JStr ''Database connection failed'')], 500),
        db_one, snd (get_db_connection cfg_down))"
    by (simp add: handle_def db_health_check_def cfg_down_gives_up)
qed

theorem acquisition_failure_replies_witness:
  "fst (get_db_connection cfg_down) = Inr None
   \<and> acquire_failed (snd (get_db_connection cfg_down))
   \<and> acquire_failed (snd (snd (handle cfg_down GetNews NotJson db_one)))
   \<and> data_path GetNews
   \<and> fst (serve cfg_down GetNews NotJson db_one)
     = \<lparr>status_code = 500, content_type = ''application/json'',
        data = JObj [(''error'', JStr ''Database connection failed'')]\<rparr>
   \<and> acquire_failed (snd (snd (handle cfg_no_env PostNews
        (Parsed (JObj [(''title'', JStr ''News'')])) db_one)))
   \<and> data_path PostNews
   \<and> fst (serve cfg_no_env PostNews (Parsed (JObj [(''title'', JStr ''News'')])) db_one)
     = \<lparr>status_code = 500, content_type = ''application/json'',
        data = JObj [(''error'', JStr ''Database connection failed'')]\<rparr>
   \<and> acquire_failed (snd (snd (handle cfg_no_env (PutNews 1) (Parsed (JObj [])) db_one)))
   \<and> data_path (PutNews 1)
   \<and> fst (serve cfg_no_env (PutNews 1) (Parsed (JObj [])) db_one)
     = \<lparr>status_code = 500, content_type = ''application/json'',
        data = JObj [(''error'', JStr ''Database connection failed'')]\<rparr>
   \<and> acquire_failed (snd (snd (handle cfg_no_env (DeleteNews 1) NotJson db_one)))
   \<and> data_path (DeleteNews 1)
   \<and> fst (serve cfg_no_env (DeleteNews 1) NotJson db_one)
     = \<lparr>status_code = 500, content_type = ''application/json'',
        data = JObj [(''error'', JStr ''Database connection failed'')]\<rparr>
   \<and> acquire_failed (snd (snd (handle cfg_down GetDbHealth NotJson db_one)))
   \<and> fst (serve cfg_down GetDbHealth NotJson db_one)
     = \<lparr>status_code = 500, content_type = ''application/json'',
        data = JObj [(''status'', JStr ''error''),
                     (''message'', JStr ''Database connection failed'')]\<rparr>"
proof -
  have down: "fst (get_db_connection cfg_down) = Inr None"
    by (simp add: cfg_down_gives_up)
  have logged: "acquire_failed [LogError EnvNotFullySet]"
    by (simp add: acquire_failed_def)
  show ?thesis
    using acquisition_failure_replies [of cfg_down GetNews NotJson db_one]
      acquisition_failure_replies [of cfg_no_env PostNews
        "Parsed (JObj [(''title'', JStr ''News'')])" db_one]
      acquisition_failure_replies [of cfg_no_env "PutNews 1" "Parsed (JObj [])" db_one]
      acquisition_failure_replies [of cfg_no_env "DeleteNews 1" NotJson db_one]
      acquisition_failure_replies [of cfg_down GetDbHealth NotJson db_one]
      down logged
    by (simp add: sample_failures)
qed

section \<open>Validation of the title\<close>

lemma strip_idem: "strip (strip s) = strip s"
proof -
  define t where "t = dropWhile is_space s"
  define u where "u = rev (dropWhile is_space (rev t))"
  have t: "t = [] \<or> \<not> is_space (hd t)"
    unfolding t_def using hd_dropWhile [of is_space s] by blast
  have "rev (u @ rev (takeWhile is_space (rev t))) = rev t"
    by (simp add: u_def)
  then have "u @ rev (takeWhile is_space (rev t)) = t"
    by (simp only: rev_is_rev_conv)
  then have split: "t = u @ rev (takeWhile is_space (rev t))"
    by (rule sym)
  have "u = [] \<or> \<not> is_space (hd u)"
  proof (cases "u = []")
    case False
    with split have "hd t = hd u" by (metis hd_append2)
    moreover from False split have "t \<noteq> []" by auto
    ultimately show ?thesis using t by simp
  qed simp
  then have "dropWhile is_space u = u"
    by (simp add: dropWhile_eq_self_iff)
  then have "strip u = rev (dropWhile is_space (rev u))"
    by (simp add: strip_def)
  also have "\<dots> = u"
    by (simp add: u_def)
  finally show ?thesis
    by (simp add: strip_def u_def t_def)
qed

lemma create_news_fields_title:
  assumes "create_news_fields payload = Inr (title, content)"
  shows "\<exists>s. title = JStr s \<and> strip s \<noteq> []"
  using assms
  by (auto simp add: create_news_fields_def title_invalid_def strip_idem
      split: sum.splits bool.splits json.splits if_splits)

lemma create_news_try_committed:
  assumes "create_news_try cfg title content s = (r, s', es)"
  shows "committed s' = committed s \<or> committed s' = working s @ [(serial s, title, content)]"
  using assms
  by (auto simp add: create_news_try_def execute_def commit_def fetchone_def
      split: option.splits list.splits prod.splits)

lemma try_rollback_committed: "committed (fst (try_rollback cfg s)) = committed s"
  by (cases "rollback_fault cfg") (simp_all add: try_rollback_def)

text \<open>\<open>create_news\<close> keeps the invariant: the only row it can add has a title that passed the check.\<close>

lemma create_news_keeps_titles:
  assumes inv: "titles_nonempty db"
  shows "titles_nonempty (fst (snd (create_news cfg body db)))"
proof (cases body)
  case (Parsed payload)
  show ?thesis
  proof (cases "create_news_fields payload")
    case (Inl x)
    with inv Parsed show ?thesis by (simp add: create_news_def)
  next
    case (Inr fields)
    obtain title content where fields: "fields = (title, content)" by (cases fields)
    from create_news_fields_title Inr fields obtain t where
      title: "title = JStr t" "strip t \<noteq> []" by blast
    show ?thesis
    proof (cases cfg rule: get_db_connection_cases)
      case (opened conn evs)
      obtain r s es where
        block: "create_news_try cfg title content (open_session db) = (r, s, es)"
        by (cases "create_news_try cfg title content (open_session db)") auto
      from create_news_try_committed [OF block]
      have "committed s = news db \<or> committed s = news db @ [(next_id db, title, content)]"
        by (simp add: open_session_def)
      with inv title have ok: "list_all titled (committed s)"
        by (auto simp add: titles_nonempty_def)
      obtain s' es' where rb: "try_rollback cfg s = (s', es')"
        by (cases "try_rollback cfg s")
      with try_rollback_committed [of cfg s] have "committed s' = committed s" by simp
      with ok show ?thesis
        by (cases r)
           (simp_all add: create_news_def Parsed Inr fields opened block rb close_def
              titles_nonempty_def)
    qed (simp_all add: create_news_def Parsed Inr fields inv)
  qed
qed (simp_all add: create_news_def inv)

lemma delete_news_try_committed:
  assumes "delete_news_try cfg item_id s = (r, s', es)"
  shows "committed s' = committed s
       \<or> committed s' = filter (\<lambda>r. fst r \<noteq> item_id) (working s)"
  using assms
  by (auto simp add: delete_news_try_def execute_def commit_def fetchone_def
      split: option.splits list.splits prod.splits)

text \<open>\<open>delete_news\<close> keeps the invariant: it only removes rows.\<close>

lemma delete_news_keeps_titles:
  assumes inv: "titles_nonempty db"
  shows "titles_nonempty (fst (snd (delete_news cfg item_id db)))"
proof (cases cfg rule: get_db_connection_cases)
  case (opened conn evs)
  obtain r s es where block: "delete_news_try cfg item_id (open_session db) = (r, s, es)"
    by (cases "delete_news_try cfg item_id (open_session db)") auto
  from delete_news_try_committed [OF block]
  have "committed s = news db \<or> committed s = filter (\<lambda>r. fst r \<noteq> item_id) (news db)"
    by (simp add: open_session_def)
  with inv have ok: "list_all titled (committed s)"
    by (auto simp add: titles_nonempty_def list_all_iff)
  obtain s' es' where rb: "try_rollback cfg s = (s', es')"
    by (cases "try_rollback cfg s")
  with try_rollback_committed [of cfg s] have same: "committed s' = committed s" by simp
  show ?thesis
  proof (cases r)
    case (Inl x)
    with ok same show ?thesis
      by (cases x) (simp_all add: delete_news_def opened block rb close_def titles_nonempty_def)
  next
    case (Inr u)
    with ok show ?thesis
      by (simp add: delete_news_def opened block close_def titles_nonempty_def)
  qed
qed (simp_all add: delete_news_def inv)

text \<open>
  Claim C2 fails on \<open>update_news\<close>, which writes the title of the body without the check
  that \<open>create_news\<close> makes: on a table whose only row has the title \<^verbatim>\<open>Hello\<close>, the bodies
  \<^verbatim>\<open>{"title": ""}\<close> and \<^verbatim>\<open>{"title": "   "}\<close> are answered 200 and leave a committed row
  with an empty, respectively blank, title.
\<close>

theorem update_news_blank_title:
  "titles_nonempty db_one
   \<and> update_news cfg_up 1 (Parsed (JObj [(''title'', JStr [])])) db_one
     = (Inr (JObj [(''id'', JNum 1), (''title'', JStr []), (''content'', JStr ''first'')], 200),
        \<lparr>news = [(1, JStr [], JStr ''first'')], next_id = 2\<rparr>,
        [Connect 1 Connected, Execute (SelectNewsById 1),
         Execute (UpdateNews (JStr []) (JStr ''first'') 1), Commit, Close])
   \<and> \<not> titles_nonempty \<lparr>news = [(1, JStr [], JStr ''first'')], next_id = 2\<rparr>
   \<and> update_news cfg_up 1 (Parsed (JObj [(''title'', JStr ''   '')])) db_one
     = (Inr (JObj [(''id'', JNum 1), (''title'', JStr ''   ''), (''content'', JStr ''first'')],
             200),
        \<lparr>news = [(1, JStr ''   '', JStr ''first'')], next_id = 2\<rparr>,
        [Connect 1 Connected, Execute (SelectNewsById 1),
         Execute (UpdateNews (JStr ''   '') (JStr ''first'') 1), Commit, Close])
   \<and> \<not> titles_nonempty \<lparr>news = [(1, JStr ''   '', JStr ''first'')], next_id = 2\<rparr>"
proof -
  have rows: "distinct (map fst (news db_one))"
    "(1, JStr ''Hello'', JStr ''first'') \<in> set (news db_one)"
    by (simp_all add: db_one_def)
  have healthy: "stmt_fault cfg_up st = None" "commit_fault cfg_up = None" for st
    by (simp_all add: cfg_up_def)
  have "update_news_try cfg_up 1 (JObj [(''title'', JStr [])]) (open_session db_one)
      = (Inr (item_of 1 (JStr []) (JStr ''first'')),
         \<lparr>committed = [(1, JStr [], JStr ''first'')], working = [(1, JStr [], JStr ''first'')],
          serial = 2\<rparr>,
         [Execute (SelectNewsById 1), Execute (UpdateNews (JStr []) (JStr ''first'') 1), Commit])"
    using update_news_try_ok [OF rows, of "JStr []" "[(''title'', JStr [])]" "JStr ''first''" cfg_up]
    by (simp add: healthy db_one_def)
  moreover
  have "update_news_try cfg_up 1 (JObj [(''title'', JStr ''   '')]) (open_session db_one)
      = (Inr (item_of 1 (JStr ''   '') (JStr ''first'')),
         \<lparr>committed = [(1, JStr ''   '', JStr ''first'')],
          working = [(1, JStr ''   '', JStr ''first'')], serial = 2\<rparr>,
         [Execute (SelectNewsById 1), Execute (UpdateNews (JStr ''   '') (JStr ''first'') 1),
          Commit])"
    using update_news_try_ok [OF rows, of "JStr ''   ''" "[(''title'', JStr ''   '')]"
        "JStr ''first''" cfg_up]
    by (simp add: healthy db_one_def)
  moreover have "strip ''Hello'' = ''Hello''"
    by (simp add: strip_def is_space_def)
  then have "titles_nonempty db_one"
    by (simp add: titles_nonempty_def db_one_def)
  ultimately show ?thesis
    by (simp add: update_news_def cfg_up_connects close_def item_of_def titles_nonempty_def
        strip_samples)
qed

text \<open>
  What \<open>create_news\<close> rejects: a body that is not JSON or cannot be parsed, and a JSON
  object whose title is missing, is not a string, or is blank. Each is an abort 400 with
  no connection attempt and no change of the database.
\<close>

lemma create_news_rejects:
  "create_news cfg NotJson db = (Inl (HTTPException 400 ''Request must be JSON''), db, [])"
  "create_news cfg Malformed db = (Inl (HTTPException 400 bad_request_description), db, [])"
  "title_rejected (map_of kvs ''title'') \<Longrightarrow>
   create_news cfg (Parsed (JObj kvs)) db
     = (Inl (HTTPException 400 ''Missing or invalid 'title' field''), db, [])"
proof -
  show "create_news cfg NotJson db = (Inl (HTTPException 400 ''Request must be JSON''), db, [])"
    and "create_news cfg Malformed db = (Inl (HTTPException 400 bad_request_description), db, [])"
    by (simp_all add: create_news_def)
  assume "title_rejected (map_of kvs ''title'')"
  then have "create_news_fields (JObj kvs)
      = Inl (HTTPException 400 ''Missing or invalid 'title' field'')"
    by (cases "map_of kvs ''title''" rule: title_rejected.cases)
       (simp_all add: create_news_fields_def title_invalid_def)
  then show "create_news cfg (Parsed (JObj kvs)) db
     = (Inl (HTTPException 400 ''Missing or invalid 'title' field''), db, [])"
    by (simp add: create_news_def)
qed

text \<open>
  Claim C5 fails for a JSON body that is not an object. For the body \<^verbatim>\<open>null\<close> the test
  \<^verbatim>\<open>"title" not in payload\<close> raises a \<^verbatim>\<open>TypeError\<close> outside any \<^verbatim>\<open>try\<close>: the handler does not
  abort with 400, and the response is 500. The same holds for a number, a boolean, a list
  that contains \<^verbatim>\<open>"title"\<close> and a string that contains \<^verbatim>\<open>title\<close>. (No connection is
  attempted and no row is created.)
\<close>

theorem create_news_null_body:
  "create_news cfg (Parsed JNull) db
     = (Inl (Uncaught (TypeError ''argument of type 'NoneType' is not iterable'')), db, [])
   \<and> serve cfg PostNews (Parsed JNull) db
     = (\<lparr>status_code = 500, content_type = ''application/json'',
         data = JObj [(''error'', JStr internal_server_error_description)]\<rparr>, db, [])
   \<and> status_code (fst (serve cfg PostNews (Parsed (JNum 5)) db)) = 500
   \<and> status_code (fst (serve cfg PostNews (Parsed (JBool True)) db)) = 500
   \<and> status_code (fst (serve cfg PostNews (Parsed (JArr [JStr ''title''])) db)) = 500
   \<and> status_code (fst (serve cfg PostNews (Parsed (JStr ''a title'')) db)) = 500"
  by (simp add: serve_def handle_def respond_def handle_http_exception_def create_news_def
      create_news_fields_def title_invalid_def quoted_def)

end
